theory Spec2Isabelle
  imports Main "HOL-Library.AList"
begin

section \<open>Bivariate synthetic data feed: a model of \<^verbatim>\<open>datafeed/bivariate.py\<close>\<close>

text \<open>
  The module draws parameters of a bivariate time-series model, calls a trajectory
  generator, reshapes the output into two dataframes and wraps them into a sampler
  object. The stochastic model (\<^verbatim>\<open>BivariateTSModel\<close>), the base classes
  (\<^verbatim>\<open>BasePairDataGenerator\<close>, \<^verbatim>\<open>BaseCombinedDataSet\<close>), numpy and pandas live outside
  the file. Their members enter the model as parameters; what the file itself does with
  them is translated statement by statement.

  Conventions.
  \<^item> A Python exception is a value \<open>Inl e\<close> of the sum \<open>error + 'a\<close>.
  \<^item> The random source and everything else an external callable may touch is an
    explicit world \<open>'w\<close>, passed to and returned by every external callable.
  \<^item> The warnings the file itself emits through \<^verbatim>\<open>self.log\<close> are returned as a list.
  \<^item> A Python \<^verbatim>\<open>dict\<close> whose iteration order matters is an association list with
    distinct keys; lookup is \<open>map_of\<close>, assignment is \<open>AList.update\<close>.
  \<^item> Objects are values: the superclass constructor returns a fresh object, and an
    external callable holds no reference to the generator it is called from.
\<close>

subsection \<open>Exceptions\<close>

datatype error =
    KeyError
  | IndexError
  | ValueError
  | TypeError
  | AssertionError
  | OverflowError
  | ExternalError

subsection \<open>Dataframes and numpy arrays\<close>

text \<open>
  A dataframe as far as the file builds one: named columns in insertion order, and an
  index. Values (floats) are an abstract type \<open>'v\<close>, index entries an abstract type
  \<open>'ix\<close>.
\<close>

record ('ix, 'v) dataframe =
  df_columns :: "(string \<times> 'v list) list"
  df_index :: "'ix list"

text \<open>
  \<^verbatim>\<open>pd.DataFrame(data=<dict of arrays>, index=index)\<close>: pandas takes an array as long as
  the index as it is, repeats an array of one element over the index, and refuses any
  other array.
\<close>

definition pd_broadcast :: "nat \<Rightarrow> 'v list \<Rightarrow> 'v list" where
  "pd_broadcast n v = (if length v = n then v else replicate n (v ! 0))"

definition pd_DataFrame ::
  "(string \<times> 'v list) list \<Rightarrow> 'ix list \<Rightarrow> error + ('ix, 'v) dataframe" where
  "pd_DataFrame d index =
     (if list_all (\<lambda>c. length (snd c) = length index \<or> length (snd c) = 1) d
      then Inr \<lparr>df_columns = map (\<lambda>(name, v). (name, pd_broadcast (length index) v)) d,
                df_index = index\<rparr>
      else Inl ValueError)"

text \<open>
  The generator output is a three-dimensional array, here a list of batches, each a list
  of rows, each a list of values. \<^verbatim>\<open>data[i, j, :]\<close> raises \<^verbatim>\<open>IndexError\<close> out of range.
\<close>

type_synonym 'v ndarray3 = "'v list list list"

definition np_getitem :: "'v ndarray3 \<Rightarrow> nat \<Rightarrow> nat \<Rightarrow> error + 'v list" where
  "np_getitem x i j =
     (if i < length x \<and> j < length (x ! i) then Inr (x ! i ! j) else Inl IndexError)"

text \<open>The array has shape \<open>[b, c, n]\<close>.\<close>

definition has_shape :: "'v ndarray3 \<Rightarrow> nat \<Rightarrow> nat \<Rightarrow> nat \<Rightarrow> bool" where
  "has_shape x b c n =
     (length x = b \<and> list_all (\<lambda>rows. length rows = c \<and> list_all (\<lambda>r. length r = n) rows) x)"

text \<open>
  \<^verbatim>\<open>np.around(x, decimals=d)\<close> rounds every element and keeps the shape. numpy reads
  \<^verbatim>\<open>decimals\<close> as a C \<^verbatim>\<open>int\<close> of 32 bits and raises \<^verbatim>\<open>OverflowError\<close> for a Python integer
  that does not fit. Rounding one float is numpy's business: the parameter \<open>rnd\<close>.
\<close>

definition np_around ::
  "(int \<Rightarrow> 'v \<Rightarrow> 'v) \<Rightarrow> 'v ndarray3 \<Rightarrow> int \<Rightarrow> error + 'v ndarray3" where
  "np_around rnd x decimals =
     (if - (2 ^ 31) \<le> decimals \<and> decimals < 2 ^ 31
      then Inr (map (map (map (rnd decimals))) x)
      else Inl OverflowError)"

subsection \<open>Dictionaries\<close>

text \<open>\<^verbatim>\<open>d[k]\<close> on a dict.\<close>

definition py_getitem :: "('k \<times> 'a) list \<Rightarrow> 'k \<Rightarrow> error + 'a" where
  "py_getitem d k = (case map_of d k of None \<Rightarrow> Inl KeyError | Some v \<Rightarrow> Inr v)"

text \<open>
  \<^verbatim>\<open>{name: f(name) for name in names}\<close>: the names are visited in order, the first
  failing \<open>f\<close> aborts, a repeated name overwrites its value and keeps its position.
\<close>

fun dict_comp ::
  "('k \<Rightarrow> error + 'a) \<Rightarrow> 'k list \<Rightarrow> ('k \<times> 'a) list \<Rightarrow> error + ('k \<times> 'a) list" where
  "dict_comp f [] acc = Inr acc"
| "dict_comp f (n # ns) acc =
     (case f n of Inl e \<Rightarrow> Inl e | Inr v \<Rightarrow> dict_comp f ns (AList.update n v acc))"

subsection \<open>Keyword arguments and the model state\<close>

text \<open>
  The model state \<^verbatim>\<open>BivariateTSModelState\<close> is declared outside the file; the file
  reads \<^verbatim>\<open>state.s.process.observation.{mu, log_theta, log_sigma}\<close>.
\<close>

record 'v observation_state =
  mu :: 'v
  log_theta :: 'v
  log_sigma :: 'v

record 'v process_state =
  observation :: "'v observation_state"

record 'v ts_state =
  process :: "'v process_state"

record 'v BivariateTSModelState =
  s :: "'v ts_state"

text \<open>The values a generator parameter dictionary holds.\<close>

datatype 'v kwval =
    KState "'v BivariateTSModelState"
  | KNum 'v
  | KInt int

type_synonym 'v kwargs = "(string \<times> 'v kwval) list"

subsection \<open>Data streams and generator objects\<close>

text \<open>One entry of \<^verbatim>\<open>self.data\<close>: the attributes of a data stream the file touches.\<close>

record ('ix, 'v, 'f) stream =
  episode_num_records :: int
  train_index :: "'ix list"
  test_index :: "'ix list"
  sdata :: "('ix, 'v) dataframe option"
  sfilename :: 'f

text \<open>
  \<^verbatim>\<open>metadata\<close>: key \<^verbatim>\<open>'generator'\<close> holds the parameter dictionary when present; every
  other key holds \<^verbatim>\<open>None\<close> or an integer (a sample type, a counter, a row number).
\<close>

record 'v metadata =
  md_generator :: "'v kwargs option"
  md_items :: "string \<rightharpoonup> int option"

text \<open>
  The attributes \<^verbatim>\<open>BasePairDataGenerator\<close> gives an instance, as far as the file reads
  or writes them.
\<close>

record ('ix, 'v, 'f, 'dc, 'nk) BasePairDataGenerator =
  data_names :: "string list"
  data :: "(string \<times> ('ix, 'v, 'f) stream) list"
  a1_name :: string
  a2_name :: string
  names :: "string list"
  metadata :: "'v metadata"
  sample_num :: int
  get_new_sample :: bool
  name :: string
  data_class_ref :: 'dc
  nested_kwargs :: 'nk
  filename :: "(string \<times> 'f) list"

text \<open>\<^verbatim>\<open>SimpleBivariateGenerator\<close> adds four attributes in its constructor.\<close>

record ('ix, 'v, 'f, 'dc, 'nk, 'c, 'w) SimpleBivariateGenerator =
  "('ix, 'v, 'f, 'dc, 'nk) BasePairDataGenerator" +
  generator_fn :: "int \<Rightarrow> 'v kwargs \<Rightarrow> 'w \<Rightarrow> (error + 'v ndarray3) \<times> 'w"
  generator_parameters_fn :: "'c \<Rightarrow> 'w \<Rightarrow> (error + 'v kwargs) \<times> 'w"
  generator_parameters_config :: 'c
  columns_map :: "(string \<times> string) list"

subsection \<open>\<^verbatim>\<open>SimpleBivariateGenerator.generate_data\<close>\<close>

text \<open>
  \<^verbatim>\<open>sample_type\<close> is an integer (or a bool, which Python compares and tests as 0 and 1);
  \<^verbatim>\<open>if sample_type:\<close> is \<open>sample_type \<noteq> 0\<close>. The stream \<^verbatim>\<open>self.data[self.a1_name]\<close> is
  looked up once: nothing between the two lookups of the source changes \<^verbatim>\<open>self.data\<close>.
\<close>

definition generate_data ::
  "('ix, 'v, 'f, 'dc, 'nk, 'c, 'w) SimpleBivariateGenerator \<Rightarrow> 'v kwargs \<Rightarrow> int \<Rightarrow> 'w \<Rightarrow>
   (error + ('ix, 'v) dataframe \<times> ('ix, 'v) dataframe) \<times> 'w" where
  "generate_data self generator_params sample_type w =
     (case map_of (data self) (a1_name self) of
        None \<Rightarrow> (Inl KeyError, w)
      | Some s1 \<Rightarrow>
          (case generator_fn self (episode_num_records s1) generator_params w of
             (Inl e, w') \<Rightarrow> (Inl e, w')
           | (Inr x, w') \<Rightarrow>
               (case np_getitem x 0 0 of
                  Inl e \<Rightarrow> (Inl e, w')
                | Inr r0 \<Rightarrow>
                    (case np_getitem x 0 1 of
                       Inl e \<Rightarrow> (Inl e, w')
                     | Inr r1 \<Rightarrow>
                         (let p1_dict = [(''mean'', r0), (''maximum'', r0),
                                         (''minimum'', r0), (''last'', r0)];
                              p2_dict = [(''mean'', r1), (''maximum'', r1),
                                         (''minimum'', r1), (''last'', r1)];
                              index = (if sample_type \<noteq> 0 then test_index s1
                                       else train_index s1)
                          in case dict_comp
                                  (\<lambda>name. case py_getitem (columns_map self) name of
                                             Inl e \<Rightarrow> Inl e
                                           | Inr k \<Rightarrow> py_getitem p1_dict k)
                                  (names self) [] of
                               Inl e \<Rightarrow> (Inl e, w')
                             | Inr d1 \<Rightarrow>
                                 (case pd_DataFrame d1 index of
                                    Inl e \<Rightarrow> (Inl e, w')
                                  | Inr df1 \<Rightarrow>
                                      (case dict_comp
                                              (\<lambda>name. case py_getitem (columns_map self) name of
                                                         Inl e \<Rightarrow> Inl e
                                                       | Inr k \<Rightarrow> py_getitem p2_dict k)
                                              (names self) [] of
                                         Inl e \<Rightarrow> (Inl e, w')
                                       | Inr d2 \<Rightarrow>
                                           (case pd_DataFrame d2 index of
                                              Inl e \<Rightarrow> (Inl e, w')
                                            | Inr df2 \<Rightarrow> (Inr (df1, df2), w')))))))))"

subsection \<open>The external model class and numpy\<close>

text \<open>
  The members of \<^verbatim>\<open>BivariateTSModel\<close> the file calls. Both methods draw random
  numbers, so both take and return the world. \<open>'u\<close> is the type of the class attribute
  \<^verbatim>\<open>u_recon\<close>, \<open>'p\<close> the type of the first component of the generated pair, which the
  file drops.
\<close>

record ('v, 'u, 'p, 'c, 'w) BivariateTSModel =
  generate_bivariate_trajectory_fn ::
    "int \<Rightarrow> int \<Rightarrow> 'v BivariateTSModelState \<Rightarrow> bool \<Rightarrow> 'u \<Rightarrow> 'w \<Rightarrow>
     (error + 'p \<times> 'v ndarray3) \<times> 'w"
  u_recon :: 'u
  get_random_state :: "'c \<Rightarrow> 'w \<Rightarrow> (error + 'v BivariateTSModelState) \<times> 'w"

text \<open>The two scalar operations of numpy on floats: rounding to decimals, and \<^verbatim>\<open>exp\<close>.\<close>

record 'v numpy =
  np_round :: "int \<Rightarrow> 'v \<Rightarrow> 'v"
  np_exp :: "'v \<Rightarrow> 'v"

subsection \<open>\<^verbatim>\<open>bivariate_generator_fn\<close>\<close>

text \<open>\<open>keep_decimals = None\<close>: the argument is not given, and the default 6 applies.\<close>

definition bivariate_generator_fn ::
  "('v, 'u, 'p, 'c, 'w) BivariateTSModel \<Rightarrow> 'v numpy \<Rightarrow> int \<Rightarrow> 'v BivariateTSModelState \<Rightarrow>
   int option \<Rightarrow> 'w \<Rightarrow> (error + 'v ndarray3) \<times> 'w" where
  "bivariate_generator_fn M np num_points state keep_decimals w =
     (case generate_bivariate_trajectory_fn M 1 num_points state True (u_recon M) w of
        (Inl e, w') \<Rightarrow> (Inl e, w')
      | (Inr (_, x), w') \<Rightarrow>
          (np_around (np_round np) x (case keep_decimals of None \<Rightarrow> 6 | Some d \<Rightarrow> d), w'))"

text \<open>
  The call \<^verbatim>\<open>generator_fn(num_points=n, **generator_params)\<close> when \<^verbatim>\<open>generator_fn\<close> is
  \<^verbatim>\<open>bivariate_generator_fn\<close>: Python binds the dictionary to the signature
  \<^verbatim>\<open>(num_points, state, keep_decimals=6, **kwargs)\<close>. A second value for \<^verbatim>\<open>num_points\<close>
  and a missing \<^verbatim>\<open>state\<close> are a \<^verbatim>\<open>TypeError\<close>; the remaining keys are ignored. A
  \<^verbatim>\<open>state\<close> that is no model state makes the external generator fail; a
  \<^verbatim>\<open>keep_decimals\<close> that is no integer makes \<^verbatim>\<open>np.around\<close> fail after the generator ran.
\<close>

definition call_bivariate_generator_fn ::
  "('v, 'u, 'p, 'c, 'w) BivariateTSModel \<Rightarrow> 'v numpy \<Rightarrow> int \<Rightarrow> 'v kwargs \<Rightarrow> 'w \<Rightarrow>
   (error + 'v ndarray3) \<times> 'w" where
  "call_bivariate_generator_fn M np num_points generator_params w =
     (if ''num_points'' \<in> fst ` set generator_params then (Inl TypeError, w)
      else case map_of generator_params ''state'' of
             None \<Rightarrow> (Inl TypeError, w)
           | Some (KState state) \<Rightarrow>
               (case map_of generator_params ''keep_decimals'' of
                  None \<Rightarrow> bivariate_generator_fn M np num_points state None w
                | Some (KInt d) \<Rightarrow> bivariate_generator_fn M np num_points state (Some d) w
                | Some _ \<Rightarrow>
                    (case generate_bivariate_trajectory_fn M 1 num_points state True (u_recon M) w of
                       (Inl e, w') \<Rightarrow> (Inl e, w')
                     | (Inr _, w') \<Rightarrow> (Inl TypeError, w')))
           | Some _ \<Rightarrow> (Inl ExternalError, w))"

subsection \<open>\<^verbatim>\<open>bivariate_random_state_fn\<close>\<close>

text \<open>\<open>cfg\<close> stands for the positional and keyword arguments, passed on unchanged.\<close>

definition bivariate_random_state_fn ::
  "('v, 'u, 'p, 'c, 'w) BivariateTSModel \<Rightarrow> 'v numpy \<Rightarrow> 'c \<Rightarrow> 'w \<Rightarrow> (error + 'v kwargs) \<times> 'w" where
  "bivariate_random_state_fn M np cfg w =
     (case get_random_state M cfg w of
        (Inl e, w') \<Rightarrow> (Inl e, w')
      | (Inr state, w') \<Rightarrow>
          (Inr [(''state'', KState state),
                (''ou_mu'', KNum (mu (observation (process (s state))))),
                (''ou_lambda'', KNum (np_exp np (log_theta (observation (process (s state)))))),
                (''ou_sigma'', KNum (np_exp np (log_sigma (observation (process (s state)))))),
                (''x0'', KNum (mu (observation (process (s state)))))], w'))"

subsection \<open>\<^verbatim>\<open>SimpleBivariateGenerator.__init__\<close>\<close>

text \<open>
  The keyword arguments \<^verbatim>\<open>sample\<close> hands to the constructor, which passes them on to the
  superclass: \<^verbatim>\<open>data_class_ref\<close>, \<^verbatim>\<open>_top_level\<close> and the entries of \<^verbatim>\<open>nested_kwargs\<close> (none
  of which is taken to name a parameter of the constructor itself).
\<close>

record ('dc, 'nk) init_kwargs =
  kw_data_class_ref :: 'dc
  kw_top_level :: bool
  kw_nested :: 'nk

text \<open>
  The superclass constructor is the parameter \<open>base_init\<close>, called with
  \<^verbatim>\<open>data_names, process1_config, process2_config, name\<close> and the keyword arguments.
\<close>

type_synonym ('ix, 'v, 'f, 'dc, 'nk, 'w) base_init =
  "string list \<Rightarrow> unit option \<Rightarrow> unit option \<Rightarrow> string \<Rightarrow> ('dc, 'nk) init_kwargs \<Rightarrow> 'w \<Rightarrow>
   (error + ('ix, 'v, 'f, 'dc, 'nk) BasePairDataGenerator) \<times> 'w"

definition default_columns_map :: "(string \<times> string) list" where
  "default_columns_map =
     [(''open'', ''mean''),
      (''high'', ''maximum''),
      (''low'', ''minimum''),
      (''close'', ''last''),
      (''bid'', ''minimum''),
      (''ask'', ''maximum''),
      (''mid'', ''mean'')]"

text \<open>An optional argument that is \<open>None\<close> is not given and takes its default.\<close>

definition SimpleBivariateGenerator_init ::
  "('v, 'u, 'p, 'c, 'w) BivariateTSModel \<Rightarrow> 'v numpy \<Rightarrow> ('ix, 'v, 'f, 'dc, 'nk, 'w) base_init \<Rightarrow>
   string list \<Rightarrow> 'c \<Rightarrow>
   (int \<Rightarrow> 'v kwargs \<Rightarrow> 'w \<Rightarrow> (error + 'v ndarray3) \<times> 'w) option \<Rightarrow>
   ('c \<Rightarrow> 'w \<Rightarrow> (error + 'v kwargs) \<times> 'w) option \<Rightarrow>
   string option \<Rightarrow> ('dc, 'nk) init_kwargs \<Rightarrow> 'w \<Rightarrow>
   (error + ('ix, 'v, 'f, 'dc, 'nk, 'c, 'w) SimpleBivariateGenerator) \<times> 'w" where
  "SimpleBivariateGenerator_init M np base_init data_names' generator_parameters_config'
       generator_fn' generator_parameters_fn' name' kwargs w =
     (case base_init data_names' None None
             (case name' of None \<Rightarrow> ''BivariateGenerator'' | Some n \<Rightarrow> n) kwargs w of
        (Inl e, w') \<Rightarrow> (Inl e, w')
      | (Inr b, w') \<Rightarrow>
          (Inr (BasePairDataGenerator.extend b
                  (SimpleBivariateGenerator.fields
                     (case generator_fn' of
                        None \<Rightarrow> call_bivariate_generator_fn M np
                      | Some g \<Rightarrow> g)
                     (case generator_parameters_fn' of
                        None \<Rightarrow> bivariate_random_state_fn M np
                      | Some g \<Rightarrow> g)
                     generator_parameters_config'
                     default_columns_map)), w'))"

subsection \<open>\<^verbatim>\<open>SimpleBivariateGenerator.sample\<close>\<close>

text \<open>
  The warning \<^verbatim>\<open>'Attempt to sample type {} given current sample type {}, overriden.'\<close>
  with its two arguments.
\<close>

datatype log_msg = Warning_overriden int int

text \<open>
  The result is the exception or the pair of the new sample and the parent after the
  call, then the warnings logged, then the world. An exception leaves the parent as it
  was: the only assignment to \<^verbatim>\<open>self\<close> is the last statement before \<^verbatim>\<open>return\<close>.
\<close>

definition sample ::
  "('v, 'u, 'p, 'c, 'w) BivariateTSModel \<Rightarrow> 'v numpy \<Rightarrow> ('ix, 'v, 'f, 'dc, 'nk, 'w) base_init \<Rightarrow>
   ('ix, 'v, 'f, 'dc, 'nk, 'c, 'w) SimpleBivariateGenerator \<Rightarrow> int \<Rightarrow> 'w \<Rightarrow>
   (error + ('ix, 'v, 'f, 'dc, 'nk, 'c, 'w) SimpleBivariateGenerator \<times>
            ('ix, 'v, 'f, 'dc, 'nk, 'c, 'w) SimpleBivariateGenerator) \<times>
   log_msg list \<times> 'w" where
  "sample M np base_init self sample_type0 w =
     (case md_items (metadata self) ''type'' of
        None \<Rightarrow> (Inl KeyError, [], w)
      | Some mtype \<Rightarrow>
          (let (sample_type, log) =
                 (case mtype of
                    None \<Rightarrow> (sample_type0, [])
                  | Some t \<Rightarrow>
                      if t \<noteq> sample_type0 then (t, [Warning_overriden sample_type0 t])
                      else (sample_type0, []))
           in case SimpleBivariateGenerator_init M np base_init
                     (data_names self) (generator_parameters_config self) None None
                     (Some (''sub_'' @ name self))
                     \<lparr>kw_data_class_ref = data_class_ref self, kw_top_level = False,
                      kw_nested = nested_kwargs self\<rparr> w of
                (Inl e, w1) \<Rightarrow> (Inl e, log, w1)
              | (Inr sample0, w1) \<Rightarrow>
                  (let sample1 = sample0\<lparr>names := names self\<rparr>
                   in case (if get_new_sample self
                            then (case generator_parameters_fn self
                                         (generator_parameters_config self) w1 of
                                    (Inl e, w2) \<Rightarrow> (Inl e, w2)
                                  | (Inr params, w2) \<Rightarrow>
                                      (case generate_data self params sample_type w2 of
                                         (Inl e, w3) \<Rightarrow> (Inl e, w3)
                                       | (Inr (data1, data2), w3) \<Rightarrow>
                                           (Inr (Some data1, Some data2,
                                                 \<lparr>md_generator = Some params,
                                                  md_items = Map.empty\<rparr>), w3)))
                            else (Inr (None, None,
                                       \<lparr>md_generator = None, md_items = Map.empty\<rparr>), w1)) of
                        (Inl e, w3) \<Rightarrow> (Inl e, log, w3)
                      | (Inr (data1, data2, metadata0), w3) \<Rightarrow>
                          (case map_of (data self) (a1_name self) of
                             None \<Rightarrow> (Inl KeyError, log, w3)
                           | Some s1 \<Rightarrow>
                               (let metadata1 = metadata0\<lparr>md_items := (md_items metadata0)
                                      (''type'' \<mapsto> Some sample_type,
                                       ''sample_num'' \<mapsto> Some (sample_num self),
                                       ''parent_sample_type'' \<mapsto> mtype,
                                       ''parent_sample_num'' \<mapsto> Some (sample_num self),
                                       ''first_row'' \<mapsto> Some 0,
                                       ''last_row'' \<mapsto> Some (episode_num_records s1))\<rparr>;
                                    sample2 = sample1\<lparr>metadata := metadata1\<rparr>
                                in case map_of (data sample2) (a1_name self) of
                                     None \<Rightarrow> (Inl KeyError, log, w3)
                                   | Some t1 \<Rightarrow>
                                       (let sample3 = sample2\<lparr>data :=
                                              AList.update (a1_name self) (t1\<lparr>sdata := data1\<rparr>)
                                                (data sample2)\<rparr>
                                        in case map_of (data sample3) (a2_name self) of
                                             None \<Rightarrow> (Inl KeyError, log, w3)
                                           | Some t2 \<Rightarrow>
                                               (let sample4 = sample3\<lparr>data :=
                                                      AList.update (a2_name self)
                                                        (t2\<lparr>sdata := data2\<rparr>) (data sample3)\<rparr>;
                                                    sample5 = sample4\<lparr>filename :=
                                                      map (\<lambda>(key, stream). (key, sfilename stream))
                                                        (data self)\<rparr>
                                                in (Inr (sample5,
                                                         self\<lparr>sample_num := sample_num self + 1\<rparr>),
                                                    log, w3))))))))"

subsection \<open>\<^verbatim>\<open>BivariateDataSet.__init__\<close>\<close>

text \<open>
  The argument \<^verbatim>\<open>assets_filenames\<close> is any Python object: a dict from asset names to
  file names, or something else.
\<close>

datatype ('f, 'o) py_object = PyDict "(string \<times> 'f) list" | PyOther 'o

datatype class_ref = Cls_SimpleBivariateGenerator | Cls_BTgymMultiData | Cls_BTgymDataset2

record ('c, 'd) train_data_config =
  tr_data_names :: "string list"
  tr_generator_parameters_config :: 'c
  tr_episode_duration :: 'd

record ('f, 'd) test_data_config =
  te_data_class_ref :: class_ref
  te_data_config :: "(string \<times> (string \<times> 'f) list) list"
  te_episode_duration :: 'd

text \<open>The keyword arguments of the call to \<^verbatim>\<open>BaseCombinedDataSet.__init__\<close>.\<close>

record ('c, 'd, 'f) combined_args =
  arg_train_data_config :: "('c, 'd) train_data_config"
  arg_test_data_config :: "('f, 'd) test_data_config"
  arg_train_class_ref :: class_ref
  arg_test_class_ref :: class_ref
  arg_name :: string

text \<open>
  The superclass constructor is the parameter \<open>super_init\<close>. The source states its two
  assertions twice; so does the model.
\<close>

definition BivariateDataSet_init ::
  "(('c, 'd, 'f) combined_args \<Rightarrow> 'k \<Rightarrow> 'w \<Rightarrow> (error + 'obj) \<times> 'w) \<Rightarrow>
   ('f, 'o) py_object \<Rightarrow> 'c \<Rightarrow> 'd \<Rightarrow> 'd \<Rightarrow> string option \<Rightarrow> 'k \<Rightarrow> 'w \<Rightarrow> (error + 'obj) \<times> 'w" where
  "BivariateDataSet_init super_init assets_filenames model_params train_episode_duration
       test_episode_duration name' kwargs w =
     (case assets_filenames of
        PyOther _ \<Rightarrow> (Inl AssertionError, w)
      | PyDict d \<Rightarrow>
          (let data_names0 = map fst d
           in if length data_names0 \<noteq> 2 then (Inl AssertionError, w)
              else (case assets_filenames of
                      PyOther _ \<Rightarrow> (Inl AssertionError, w)
                    | PyDict d' \<Rightarrow>
                        (let data_names1 = map fst d'
                         in if length data_names1 \<noteq> 2 then (Inl AssertionError, w)
                            else (let train_config =
                                        \<lparr>tr_data_names = data_names1,
                                         tr_generator_parameters_config = model_params,
                                         tr_episode_duration = train_episode_duration\<rparr>;
                                      test_config =
                                        \<lparr>te_data_class_ref = Cls_BTgymDataset2,
                                         te_data_config =
                                           map (\<lambda>(asset_name, file_name).
                                                  (asset_name, [(''filename'', file_name)])) d',
                                         te_episode_duration = test_episode_duration\<rparr>
                                  in super_init
                                       \<lparr>arg_train_data_config = train_config,
                                        arg_test_data_config = test_config,
                                        arg_train_class_ref = Cls_SimpleBivariateGenerator,
                                        arg_test_class_ref = Cls_BTgymMultiData,
                                        arg_name = (case name' of
                                                      None \<Rightarrow> ''BivariateDataSet''
                                                    | Some n \<Rightarrow> n)\<rparr>
                                       kwargs w)))))"

subsection \<open>A concrete instance\<close>

text \<open>
  Stand-ins for the external parts, small enough to evaluate: values are integers, the
  world counts the random draws, the trajectory generator returns a fixed array of shape
  \<open>[1, 2, 3]\<close>, rounding clears the last digit.
\<close>

definition ex_state :: "int BivariateTSModelState" where
  "ex_state = \<lparr>s = \<lparr>process = \<lparr>observation = \<lparr>mu = 5, log_theta = 7, log_sigma = 9\<rparr>\<rparr>\<rparr>\<rparr>"

definition ex_trajectory :: "int ndarray3" where
  "ex_trajectory = [[[101, 102, 103], [201, 202, 203]]]"

definition ex_model :: "(int, unit, unit, unit, nat) BivariateTSModel" where
  "ex_model =
     \<lparr>generate_bivariate_trajectory_fn = (\<lambda>b n st full u w. (Inr ((), ex_trajectory), Suc w)),
      u_recon = (),
      get_random_state = (\<lambda>cfg w. (Inr ex_state, Suc w))\<rparr>"

definition ex_numpy :: "int numpy" where
  "ex_numpy = \<lparr>np_round = (\<lambda>d v. 10 * (v div 10)), np_exp = (\<lambda>v. v + 1)\<rparr>"

definition ex_stream :: "string \<Rightarrow> (nat, int, string) stream" where
  "ex_stream f =
     \<lparr>episode_num_records = 3, train_index = [0, 1, 2], test_index = [10, 11, 12],
      sdata = None, sfilename = f\<rparr>"

definition ex_base :: "(nat, int, string, unit, unit) BasePairDataGenerator" where
  "ex_base =
     \<lparr>data_names = [''a'', ''b''],
      data = [(''a'', ex_stream ''a.csv''), (''b'', ex_stream ''b.csv'')],
      a1_name = ''a'',
      a2_name = ''b'',
      names = [''open'', ''high'', ''low'', ''close''],
      metadata = \<lparr>md_generator = None,
                  md_items = [''type'' \<mapsto> None, ''sample_num'' \<mapsto> Some 0]\<rparr>,
      sample_num = 0,
      get_new_sample = True,
      name = ''G'',
      data_class_ref = (),
      nested_kwargs = (),
      filename = []\<rparr>"

definition ex_base_init :: "(nat, int, string, unit, unit, nat) base_init" where
  "ex_base_init dn p1 p2 nm kw w = (Inr (ex_base\<lparr>data_names := dn, name := nm\<rparr>), w)"

definition ex_generator ::
  "(nat, int, string, unit, unit, unit, nat) SimpleBivariateGenerator" where
  "ex_generator =
     BasePairDataGenerator.extend ex_base
       (SimpleBivariateGenerator.fields
          (call_bivariate_generator_fn ex_model ex_numpy)
          (bivariate_random_state_fn ex_model ex_numpy)
          ()
          default_columns_map)"

text \<open>A dataframe of the instance: four equal columns over the given index.\<close>

definition ex_frame :: "int list \<Rightarrow> nat list \<Rightarrow> (nat, int) dataframe" where
  "ex_frame r idx =
     \<lparr>df_columns = [(''open'', r), (''high'', r), (''low'', r), (''close'', r)],
      df_index = idx\<rparr>"

definition ex_super_init ::
  "(unit, unit, string) combined_args \<Rightarrow> unit \<Rightarrow> nat \<Rightarrow>
   (error + (unit, unit, string) combined_args) \<times> nat" where
  "ex_super_init args kw w = (Inr args, Suc w)"

text \<open>The parameter dictionary the instance draws.\<close>

definition ex_params :: "int kwargs" where
  "ex_params = [(''state'', KState ex_state), (''ou_mu'', KNum 5), (''ou_lambda'', KNum 8),
                (''ou_sigma'', KNum 10), (''x0'', KNum 5)]"

text \<open>
  Two variants of the parent: one that is itself a test sample (its metadata type is 1),
  and one whose \<^verbatim>\<open>get_new_sample\<close> flag is off.
\<close>

definition ex_generator_test ::
  "(nat, int, string, unit, unit, unit, nat) SimpleBivariateGenerator" where
  "ex_generator_test =
     ex_generator\<lparr>metadata := \<lparr>md_generator = None, md_items = [''type'' \<mapsto> Some 1]\<rparr>\<rparr>"

definition ex_generator_off ::
  "(nat, int, string, unit, unit, unit, nat) SimpleBivariateGenerator" where
  "ex_generator_off = ex_generator\<lparr>get_new_sample := False\<rparr>"

text \<open>
  A generator whose episodes hold a single record, with a train index of three and a
  test index of five entries; its model generates one point per row.
\<close>

definition ex_model_one :: "(int, unit, unit, unit, nat) BivariateTSModel" where
  "ex_model_one =
     \<lparr>generate_bivariate_trajectory_fn = (\<lambda>b n st full u w. (Inr ((), [[[101], [201]]]), Suc w)),
      u_recon = (),
      get_random_state = (\<lambda>cfg w. (Inr ex_state, Suc w))\<rparr>"

definition ex_stream_one :: "string \<Rightarrow> (nat, int, string) stream" where
  "ex_stream_one f =
     \<lparr>episode_num_records = 1, train_index = [0, 1, 2], test_index = [10, 11, 12, 13, 14],
      sdata = None, sfilename = f\<rparr>"

definition ex_generator_one ::
  "(nat, int, string, unit, unit, unit, nat) SimpleBivariateGenerator" where
  "ex_generator_one =
     BasePairDataGenerator.extend
       (ex_base\<lparr>data := [(''a'', ex_stream_one ''a.csv''), (''b'', ex_stream_one ''b.csv'')]\<rparr>)
       (SimpleBivariateGenerator.fields
          (call_bivariate_generator_fn ex_model_one ex_numpy)
          (bivariate_random_state_fn ex_model_one ex_numpy)
          ()
          default_columns_map)"

section \<open>Properties\<close>

subsection \<open>The module-level functions\<close>

lemma np_around_Inr:
  "- (2 ^ 31) \<le> d \<Longrightarrow> d < 2 ^ 31 \<Longrightarrow> np_around rnd x d = Inr (map (map (map (rnd d))) x)"
  by (simp add: np_around_def)

lemma has_shape_map3:
  "has_shape (map (map (map f)) x) b c n = has_shape x b c n"
  by (simp add: has_shape_def list_all_iff)

text \<open>
  Claim C7 as stated, refuted. With \<open>keep_decimals = 2\<^sup>3\<^sup>1\<close>, which is no C \<open>int\<close>, the
  trajectory generator returns and \<open>bivariate_generator_fn\<close> raises \<open>OverflowError\<close>
  instead of returning the rounded trajectory.
\<close>

theorem bivariate_generator_fn_overflow_counterexample:
  "generate_bivariate_trajectory_fn ex_model 1 3 ex_state True (u_recon ex_model) 0 =
     (Inr ((), ex_trajectory), 1) \<and>
   bivariate_generator_fn ex_model ex_numpy 3 ex_state (Some 2147483648) 0 =
     (Inl OverflowError, 1)"
  by (simp add: ex_model_def bivariate_generator_fn_def np_around_def)

text \<open>
  Claim C7, amended. Let \<open>keep_decimals\<close>, 6 when the argument is not given, fit a C \<open>int\<close>
  of 32 bits. Whenever the trajectory generator of the model class, called for one batch
  of \<open>num_points\<close> points with the given state, returns the pair \<open>(p, x)\<close>,
  \<open>bivariate_generator_fn\<close> returns \<open>x\<close> with every element rounded to \<open>keep_decimals\<close>
  decimals. The result has the shape of \<open>x\<close>, whatever it is, so it has shape
  \<open>[1, 2, num_points]\<close> when \<open>x\<close> has. For a \<open>keep_decimals\<close> that does not fit,
  \<open>bivariate_generator_fn\<close> raises \<open>OverflowError\<close> after the generator has run.
\<close>

theorem bivariate_generator_fn_rounds:
  assumes "generate_bivariate_trajectory_fn M 1 num_points state True (u_recon M) w =
             (Inr (p, x), w')"
  shows "(- (2 ^ 31) \<le> (case keep_decimals of None \<Rightarrow> 6 | Some d \<Rightarrow> d) \<and>
          (case keep_decimals of None \<Rightarrow> 6 | Some d \<Rightarrow> d) < 2 ^ 31 \<longrightarrow>
          (\<exists>y. bivariate_generator_fn M np num_points state keep_decimals w = (Inr y, w') \<and>
             y = map (map (map (np_round np (case keep_decimals of None \<Rightarrow> 6 | Some d \<Rightarrow> d)))) x \<and>
             (\<forall>b c n. has_shape y b c n = has_shape x b c n) \<and>
             (\<forall>i j k. i < length x \<longrightarrow> j < length (x ! i) \<longrightarrow> k < length (x ! i ! j) \<longrightarrow>
                y ! i ! j ! k =
                  np_round np (case keep_decimals of None \<Rightarrow> 6 | Some d \<Rightarrow> d) (x ! i ! j ! k)))) \<and>
         (\<not> (- (2 ^ 31) \<le> (case keep_decimals of None \<Rightarrow> 6 | Some d \<Rightarrow> d) \<and>
             (case keep_decimals of None \<Rightarrow> 6 | Some d \<Rightarrow> d) < 2 ^ 31) \<longrightarrow>
          bivariate_generator_fn M np num_points state keep_decimals w = (Inl OverflowError, w'))"
proof (intro conjI impI)
  assume r: "- (2 ^ 31) \<le> (case keep_decimals of None \<Rightarrow> 6 | Some d \<Rightarrow> d) \<and>
             (case keep_decimals of None \<Rightarrow> 6 | Some d \<Rightarrow> d) < 2 ^ 31"
  let ?d = "case keep_decimals of None \<Rightarrow> 6 | Some d \<Rightarrow> d"
  let ?y = "map (map (map (np_round np ?d))) x"
  have "bivariate_generator_fn M np num_points state keep_decimals w = (Inr ?y, w')"
    using assms r by (simp add: bivariate_generator_fn_def np_around_Inr)
  moreover have "\<forall>b c n. has_shape ?y b c n = has_shape x b c n"
    by (simp add: has_shape_map3)
  moreover have "\<forall>i j k. i < length x \<longrightarrow> j < length (x ! i) \<longrightarrow> k < length (x ! i ! j) \<longrightarrow>
      ?y ! i ! j ! k = np_round np ?d (x ! i ! j ! k)"
    by simp
  ultimately show "\<exists>y. bivariate_generator_fn M np num_points state keep_decimals w = (Inr y, w') \<and>
      y = ?y \<and> (\<forall>b c n. has_shape y b c n = has_shape x b c n) \<and>
      (\<forall>i j k. i < length x \<longrightarrow> j < length (x ! i) \<longrightarrow> k < length (x ! i ! j) \<longrightarrow>
         y ! i ! j ! k = np_round np ?d (x ! i ! j ! k))"
    by blast
next
  assume "\<not> (- (2 ^ 31) \<le> (case keep_decimals of None \<Rightarrow> 6 | Some d \<Rightarrow> d) \<and>
             (case keep_decimals of None \<Rightarrow> 6 | Some d \<Rightarrow> d) < 2 ^ 31)"
  then show "bivariate_generator_fn M np num_points state keep_decimals w = (Inl OverflowError, w')"
    using assms by (simp add: bivariate_generator_fn_def np_around_def)
qed

theorem bivariate_generator_fn_rounds_witness:
  "generate_bivariate_trajectory_fn ex_model 1 3 ex_state True (u_recon ex_model) 0 =
     (Inr ((), ex_trajectory), 1) \<and>
   bivariate_generator_fn ex_model ex_numpy 3 ex_state None 0 =
     (Inr [[[100, 100, 100], [200, 200, 200]]], 1) \<and>
   has_shape ex_trajectory 1 2 3 \<and>
   has_shape [[[100, 100, 100], [200, 200, 200 :: int]]] 1 2 3 \<and>
   bivariate_generator_fn ex_model ex_numpy 3 ex_state (Some (- 2147483649)) 0 =
     (Inl OverflowError, 1)"
proof -
  have h: "generate_bivariate_trajectory_fn ex_model 1 3 ex_state True (u_recon ex_model) 0 =
      (Inr ((), ex_trajectory), 1)"
    by (simp add: ex_model_def)
  from bivariate_generator_fn_rounds [OF h, where keep_decimals = None and np = ex_numpy]
  have a: "bivariate_generator_fn ex_model ex_numpy 3 ex_state None 0 =
      (Inr (map (map (map (np_round ex_numpy 6))) ex_trajectory), 1)"
    by auto
  from bivariate_generator_fn_rounds [OF h, where keep_decimals = "Some (- 2147483649)" and np = ex_numpy]
  have b: "bivariate_generator_fn ex_model ex_numpy 3 ex_state (Some (- 2147483649)) 0 =
      (Inl OverflowError, 1)"
    by simp
  from a b show ?thesis
    using h by (simp add: ex_numpy_def ex_trajectory_def has_shape_def)
qed

text \<open>
  Claim C6. Whenever \<open>get_random_state\<close> of the model class returns a state,
  \<open>bivariate_random_state_fn\<close> returns a dictionary with the keys \<open>state\<close>, \<open>ou_mu\<close>,
  \<open>ou_lambda\<close>, \<open>ou_sigma\<close> and \<open>x0\<close>: \<open>state\<close> is that state, \<open>ou_mu\<close> and \<open>x0\<close> are both
  \<open>state.s.process.observation.mu\<close>, \<open>ou_lambda\<close> is \<open>exp\<close> of \<open>log_theta\<close> and \<open>ou_sigma\<close> is
  \<open>exp\<close> of \<open>log_sigma\<close> of the same observation.
\<close>

theorem bivariate_random_state_fn_fields:
  assumes "get_random_state M cfg w = (Inr state, w')"
  shows "\<exists>d. bivariate_random_state_fn M np cfg w = (Inr d, w') \<and>
             map fst d = [''state'', ''ou_mu'', ''ou_lambda'', ''ou_sigma'', ''x0''] \<and>
             map_of d ''state'' = Some (KState state) \<and>
             map_of d ''ou_mu'' = Some (KNum (mu (observation (process (s state))))) \<and>
             map_of d ''x0'' = Some (KNum (mu (observation (process (s state))))) \<and>
             map_of d ''ou_lambda'' =
               Some (KNum (np_exp np (log_theta (observation (process (s state)))))) \<and>
             map_of d ''ou_sigma'' =
               Some (KNum (np_exp np (log_sigma (observation (process (s state))))))"
  using assms by (simp add: bivariate_random_state_fn_def)

theorem bivariate_random_state_fn_fields_witness:
  "get_random_state ex_model () 0 = (Inr ex_state, 1) \<and>
   bivariate_random_state_fn ex_model ex_numpy () 0 =
     (Inr [(''state'', KState ex_state), (''ou_mu'', KNum 5), (''ou_lambda'', KNum 8),
           (''ou_sigma'', KNum 10), (''x0'', KNum 5)], 1)"
proof -
  have h: "get_random_state ex_model () 0 = (Inr ex_state, 1)"
    by (simp add: ex_model_def)
  from bivariate_random_state_fn_fields [OF h, of ex_numpy]
  obtain d where "bivariate_random_state_fn ex_model ex_numpy () 0 = (Inr d, 1)"
    by blast
  then show ?thesis
    using h by (auto simp: bivariate_random_state_fn_def ex_numpy_def ex_state_def)
qed

subsection \<open>The combined data set\<close>

text \<open>
  Claim C3. For a dictionary \<open>assets_filenames\<close> of two entries the constructor of
  \<open>BivariateDataSet\<close> calls the superclass constructor with: the train class
  \<open>SimpleBivariateGenerator\<close>, configured with the asset names and with \<open>model_params\<close> as
  its generator parameter configuration; the test class \<open>BTgymMultiData\<close>, configured with
  the data class \<open>BTgymDataset2\<close> and, for every asset, the file name given in
  \<open>assets_filenames\<close>. What the superclass does with the configuration is outside the file.
\<close>

theorem BivariateDataSet_init_configures_super:
  assumes "length d = 2"
  shows "BivariateDataSet_init super_init (PyDict d) model_params train_episode_duration
           test_episode_duration name' kwargs w =
         super_init
           \<lparr>arg_train_data_config =
              \<lparr>tr_data_names = map fst d,
               tr_generator_parameters_config = model_params,
               tr_episode_duration = train_episode_duration\<rparr>,
            arg_test_data_config =
              \<lparr>te_data_class_ref = Cls_BTgymDataset2,
               te_data_config = map (\<lambda>(a, f). (a, [(''filename'', f)])) d,
               te_episode_duration = test_episode_duration\<rparr>,
            arg_train_class_ref = Cls_SimpleBivariateGenerator,
            arg_test_class_ref = Cls_BTgymMultiData,
            arg_name = (case name' of None \<Rightarrow> ''BivariateDataSet'' | Some n \<Rightarrow> n)\<rparr>
           kwargs w"
  using assms by (simp add: BivariateDataSet_init_def)

theorem BivariateDataSet_init_configures_super_witness:
  "length [(''a'', ''a.csv''), (''b'', ''b.csv'')] = 2 \<and>
   BivariateDataSet_init ex_super_init
       (PyDict [(''a'', ''a.csv''), (''b'', ''b.csv'')] :: (string, unit) py_object)
       () () () None () 0 =
     (Inr \<lparr>arg_train_data_config =
              \<lparr>tr_data_names = [''a'', ''b''],
               tr_generator_parameters_config = (),
               tr_episode_duration = ()\<rparr>,
            arg_test_data_config =
              \<lparr>te_data_class_ref = Cls_BTgymDataset2,
               te_data_config = [(''a'', [(''filename'', ''a.csv'')]),
                                 (''b'', [(''filename'', ''b.csv'')])],
               te_episode_duration = ()\<rparr>,
            arg_train_class_ref = Cls_SimpleBivariateGenerator,
            arg_test_class_ref = Cls_BTgymMultiData,
            arg_name = ''BivariateDataSet''\<rparr>, 1)"
  using BivariateDataSet_init_configures_super
          [of "[(''a'', ''a.csv''), (''b'', ''b.csv'')]" ex_super_init "()" "()" "()" None "()" 0]
  by (simp add: ex_super_init_def)

text \<open>
  Claim C4. The assertions of the constructor of \<open>BivariateDataSet\<close> fail exactly when
  \<open>assets_filenames\<close> is not a dictionary or has a number of keys other than two: then the
  constructor raises \<open>AssertionError\<close> and nothing else happens. For a dictionary of two
  keys the constructor passes the checks and its outcome is that of the superclass
  constructor. So, unless the superclass constructor raises an \<open>AssertionError\<close> of its
  own, the constructor raises \<open>AssertionError\<close> if and only if the argument is not a
  dictionary of two keys.
\<close>

theorem BivariateDataSet_init_assertions:
  "(\<not> (\<exists>d. assets_filenames = PyDict d \<and> length (map fst d) = 2) \<longrightarrow>
      BivariateDataSet_init super_init assets_filenames model_params train_episode_duration
        test_episode_duration name' kwargs w = (Inl AssertionError, w)) \<and>
   ((\<exists>d. assets_filenames = PyDict d \<and> length (map fst d) = 2) \<longrightarrow>
      (\<exists>args. BivariateDataSet_init super_init assets_filenames model_params
                 train_episode_duration test_episode_duration name' kwargs w =
               super_init args kwargs w)) \<and>
   ((\<forall>args. fst (super_init args kwargs w) \<noteq> Inl AssertionError) \<longrightarrow>
      (fst (BivariateDataSet_init super_init assets_filenames model_params
              train_episode_duration test_episode_duration name' kwargs w) = Inl AssertionError)
      = (\<not> (\<exists>d. assets_filenames = PyDict d \<and> length (map fst d) = 2)))"
  by (cases assets_filenames) (auto simp: BivariateDataSet_init_def Let_def)

theorem BivariateDataSet_init_assertions_witness:
  "BivariateDataSet_init ex_super_init (PyOther () :: (string, unit) py_object)
     () () () None () 0 = (Inl AssertionError, 0) \<and>
   BivariateDataSet_init ex_super_init (PyDict [(''a'', ''a.csv'')] :: (string, unit) py_object)
     () () () None () 0 = (Inl AssertionError, 0) \<and>
   (\<exists>args. BivariateDataSet_init ex_super_init
              (PyDict [(''a'', ''a.csv''), (''b'', ''b.csv'')] :: (string, unit) py_object)
              () () () None () 0 = (Inr args, 1)) \<and>
   (\<forall>args. fst (ex_super_init args () 0) \<noteq> Inl AssertionError) \<and>
   fst (BivariateDataSet_init ex_super_init
          (PyDict [(''a'', ''a.csv''), (''b'', ''b.csv'')] :: (string, unit) py_object)
          () () () None () 0) \<noteq> Inl AssertionError"
proof -
  have ok: "\<forall>args. fst (ex_super_init args () 0) \<noteq> Inl AssertionError"
    by (simp add: ex_super_init_def)
  have a: "BivariateDataSet_init ex_super_init (PyOther () :: (string, unit) py_object)
             () () () None () 0 = (Inl AssertionError, 0)"
    using BivariateDataSet_init_assertions
            [of "PyOther () :: (string, unit) py_object" ex_super_init "()" "()" "()" None "()" 0]
    by simp
  have b: "BivariateDataSet_init ex_super_init
             (PyDict [(''a'', ''a.csv'')] :: (string, unit) py_object)
             () () () None () 0 = (Inl AssertionError, 0)"
    using BivariateDataSet_init_assertions
            [of "PyDict [(''a'', ''a.csv'')] :: (string, unit) py_object" ex_super_init
               "()" "()" "()" None "()" 0]
    by simp
  have c: "\<exists>args. BivariateDataSet_init ex_super_init
              (PyDict [(''a'', ''a.csv''), (''b'', ''b.csv'')] :: (string, unit) py_object)
              () () () None () 0 = (Inr args, 1)"
    using BivariateDataSet_init_assertions
            [of "PyDict [(''a'', ''a.csv''), (''b'', ''b.csv'')] :: (string, unit) py_object"
               ex_super_init "()" "()" "()" None "()" 0]
    by (simp add: ex_super_init_def)
  have d: "fst (BivariateDataSet_init ex_super_init
              (PyDict [(''a'', ''a.csv''), (''b'', ''b.csv'')] :: (string, unit) py_object)
              () () () None () 0) \<noteq> Inl AssertionError"
    using ok BivariateDataSet_init_assertions
            [of "PyDict [(''a'', ''a.csv''), (''b'', ''b.csv'')] :: (string, unit) py_object"
               ex_super_init "()" "()" "()" None "()" 0]
    by simp
  from a b c d ok show ?thesis by blast
qed

subsection \<open>Dictionary comprehension\<close>

lemma dict_comp_map_of:
  "dict_comp f ns acc = Inr d \<Longrightarrow>
   map_of d k = (if k \<in> set ns then (case f k of Inl e \<Rightarrow> None | Inr v \<Rightarrow> Some v) else map_of acc k)"
proof (induction ns arbitrary: acc)
  case Nil
  then show ?case by simp
next
  case (Cons n ns)
  then obtain v where fv: "f n = Inr v" and rest: "dict_comp f ns (AList.update n v acc) = Inr d"
    by (auto split: sum.splits)
  show ?case
    using Cons.IH [OF rest] fv by (simp add: update_conv')
qed

lemma dict_comp_distinct:
  "dict_comp f ns acc = Inr d \<Longrightarrow> distinct (map fst acc) \<Longrightarrow> distinct (map fst d)"
proof (induction ns arbitrary: acc)
  case Nil
  then show ?case by simp
next
  case (Cons n ns)
  then obtain v where fv: "f n = Inr v" and rest: "dict_comp f ns (AList.update n v acc) = Inr d"
    by (auto split: sum.splits)
  show ?case
    using Cons.IH [OF rest] Cons.prems(2) by (simp add: distinct_update)
qed

lemma dict_comp_success:
  "dict_comp f ns acc = Inr d \<Longrightarrow> n \<in> set ns \<Longrightarrow> \<exists>v. f n = Inr v"
  by (induction ns arbitrary: acc) (auto split: sum.splits)

lemma update_fresh: "k \<notin> fst ` set al \<Longrightarrow> AList.update k v al = al @ [(k, v)]"
  by (induction al) auto

lemma dict_comp_const:
  "(\<And>n. n \<in> set ns \<Longrightarrow> f n = Inr r) \<Longrightarrow> distinct (map fst acc @ ns) \<Longrightarrow>
   dict_comp f ns acc = Inr (acc @ map (\<lambda>n. (n, r)) ns)"
proof (induction ns arbitrary: acc)
  case Nil
  then show ?case by simp
next
  case (Cons n ns)
  have fresh: "n \<notin> fst ` set acc" using Cons.prems(2) by auto
  have "dict_comp f ns (acc @ [(n, r)]) = Inr ((acc @ [(n, r)]) @ map (\<lambda>n. (n, r)) ns)"
    using Cons.prems by (intro Cons.IH) auto
  then show ?case
    using Cons.prems(1) [of n] by (simp add: update_fresh [OF fresh])
qed

lemma dict_comp_keys_distinct:
  "dict_comp f ns acc = Inr d \<Longrightarrow> distinct (map fst acc @ ns) \<Longrightarrow>
   map fst d = map fst acc @ ns"
proof (induction ns arbitrary: acc)
  case Nil
  then show ?case by simp
next
  case (Cons n ns)
  then obtain v where fv: "f n = Inr v" and rest: "dict_comp f ns (AList.update n v acc) = Inr d"
    by (auto split: sum.splits)
  have fresh: "n \<notin> fst ` set acc" using Cons.prems(2) by auto
  from Cons.IH [OF rest] Cons.prems(2) show ?case
    by (simp add: update_fresh [OF fresh])
qed

lemma dict_comp_returns:
  "(\<And>n. n \<in> set ns \<Longrightarrow> \<exists>v. f n = Inr v) \<Longrightarrow> \<exists>d. dict_comp f ns acc = Inr d"
proof (induction ns arbitrary: acc)
  case Nil
  then show ?case by simp
next
  case (Cons n ns)
  then obtain v where fv: "f n = Inr v" by auto
  from Cons.IH [of "AList.update n v acc"] Cons.prems show ?case
    using fv by auto
qed

subsection \<open>Building the dataframes\<close>

lemma ohlc_lookup_value:
  "(case py_getitem cm nm of
      Inl e \<Rightarrow> Inl e
    | Inr k \<Rightarrow> py_getitem [(''mean'', r), (''maximum'', r), (''minimum'', r), (''last'', r)] k) = Inr v
   \<Longrightarrow> v = r"
  by (auto simp: py_getitem_def split: sum.splits option.splits if_splits)

lemma ohlc_lookup_returns:
  "map_of cm nm = Some k \<Longrightarrow> k \<in> {''mean'', ''maximum'', ''minimum'', ''last''} \<Longrightarrow>
   (case py_getitem cm nm of
      Inl e \<Rightarrow> Inl e
    | Inr k \<Rightarrow> py_getitem [(''mean'', r), (''maximum'', r), (''minimum'', r), (''last'', r)] k) = Inr r"
  by (auto simp: py_getitem_def)

lemma ohlc_columns:
  assumes d: "dict_comp (\<lambda>name. case py_getitem cm name of
                       Inl e \<Rightarrow> Inl e
                     | Inr k \<Rightarrow> py_getitem [(''mean'', r), (''maximum'', r),
                                               (''minimum'', r), (''last'', r)] k) ns [] = Inr d"
  shows "map_of d k = (if k \<in> set ns then Some r else None)"
    and "distinct (map fst d)"
    and "c \<in> set d \<Longrightarrow> snd c = r"
proof -
  let ?f = "\<lambda>name. case py_getitem cm name of
                       Inl e \<Rightarrow> Inl e
                     | Inr k \<Rightarrow> py_getitem [(''mean'', r), (''maximum'', r),
                                               (''minimum'', r), (''last'', r)] k"
  show m: "map_of d k = (if k \<in> set ns then Some r else None)" for k
  proof (cases "k \<in> set ns")
    case True
    from dict_comp_success [OF d True] obtain v where v: "?f k = Inr v" by blast
    then have "v = r" by (rule ohlc_lookup_value)
    with v True show ?thesis using dict_comp_map_of [OF d, of k] by simp
  next
    case False
    then show ?thesis using dict_comp_map_of [OF d, of k] by simp
  qed
  show dist: "distinct (map fst d)"
    using dict_comp_distinct [OF d] by simp
  show "snd c = r" if "c \<in> set d"
  proof -
    from that dist have "map_of d (fst c) = Some (snd c)" by simp
    with m [of "fst c"] show ?thesis by (simp split: if_splits)
  qed
qed

lemma pd_broadcast_same: "length v = n \<Longrightarrow> pd_broadcast n v = v"
  by (simp add: pd_broadcast_def)

lemma pd_DataFrame_Inr:
  "pd_DataFrame d idx = Inr df \<Longrightarrow>
   df_columns df = map (\<lambda>(name, v). (name, pd_broadcast (length idx) v)) d \<and>
   df_index df = idx \<and>
   list_all (\<lambda>c. length (snd c) = length idx \<or> length (snd c) = 1) d"
  by (auto simp: pd_DataFrame_def split: if_splits)

lemma broadcast_columns:
  assumes "\<And>c. c \<in> set d \<Longrightarrow> snd c = r"
    and "distinct (map fst d)"
    and "\<And>k. map_of d k = (if k \<in> ns then Some r else None)"
  shows "map_of (map (\<lambda>(name, v). (name, pd_broadcast n v)) d) k =
           (if k \<in> ns then Some (pd_broadcast n r) else None)"
    and "c \<in> set (map (\<lambda>(name, v). (name, pd_broadcast n v)) d) \<Longrightarrow> snd c = pd_broadcast n r"
    and "map (\<lambda>(name, v). (name, pd_broadcast n v)) d = map (\<lambda>c. (fst c, pd_broadcast n r)) d"
proof -
  show "map_of (map (\<lambda>(name, v). (name, pd_broadcast n v)) d) k =
           (if k \<in> ns then Some (pd_broadcast n r) else None)"
    using assms(3) [of k] by (simp add: map_of_map)
  show "snd c = pd_broadcast n r" if "c \<in> set (map (\<lambda>(name, v). (name, pd_broadcast n v)) d)"
    using that assms(1) by auto
  show "map (\<lambda>(name, v). (name, pd_broadcast n v)) d = map (\<lambda>c. (fst c, pd_broadcast n r)) d"
    using assms(1) by (auto simp: case_prod_beta)
qed

lemma generate_data_Inr:
  assumes "generate_data self params st w = (Inr (df1, df2), w')"
  shows "\<exists>s1 x d1 d2.
           map_of (data self) (a1_name self) = Some s1 \<and>
           generator_fn self (episode_num_records s1) params w = (Inr x, w') \<and>
           0 < length x \<and> 1 < length (x ! 0) \<and>
           dict_comp (\<lambda>name. case py_getitem (columns_map self) name of
                        Inl e \<Rightarrow> Inl e
                      | Inr k \<Rightarrow> py_getitem [(''mean'', x ! 0 ! 0), (''maximum'', x ! 0 ! 0),
                                                (''minimum'', x ! 0 ! 0), (''last'', x ! 0 ! 0)] k)
             (names self) [] = Inr d1 \<and>
           dict_comp (\<lambda>name. case py_getitem (columns_map self) name of
                        Inl e \<Rightarrow> Inl e
                      | Inr k \<Rightarrow> py_getitem [(''mean'', x ! 0 ! 1), (''maximum'', x ! 0 ! 1),
                                                (''minimum'', x ! 0 ! 1), (''last'', x ! 0 ! 1)] k)
             (names self) [] = Inr d2 \<and>
           pd_DataFrame d1 (if st \<noteq> 0 then test_index s1 else train_index s1) = Inr df1 \<and>
           pd_DataFrame d2 (if st \<noteq> 0 then test_index s1 else train_index s1) = Inr df2"
proof -
  from assms obtain s1 where s1: "map_of (data self) (a1_name self) = Some s1"
    by (auto simp: generate_data_def split: option.splits)
  from assms s1 obtain x where x: "generator_fn self (episode_num_records s1) params w = (Inr x, w')"
    by (auto simp: generate_data_def Let_def split: sum.splits prod.splits)
  let ?idx = "if st \<noteq> 0 then test_index s1 else train_index s1"
  let ?f = "\<lambda>r name. case py_getitem (columns_map self) name of
                        Inl e \<Rightarrow> Inl e
                      | Inr k \<Rightarrow> py_getitem [(''mean'', r), (''maximum'', r),
                                                (''minimum'', r), (''last'', r)] k"
  from assms s1 x obtain r0 r1 d1 d2 where
    r0: "np_getitem x 0 0 = Inr r0" and r1: "np_getitem x 0 1 = Inr r1" and
    d1: "dict_comp (?f r0) (names self) [] = Inr d1" and f1: "pd_DataFrame d1 ?idx = Inr df1" and
    d2: "dict_comp (?f r1) (names self) [] = Inr d2" and f2: "pd_DataFrame d2 ?idx = Inr df2"
    by (auto simp: generate_data_def Let_def split: sum.splits)
  from r0 have r0': "0 < length x" "r0 = x ! 0 ! 0"
    by (auto simp: np_getitem_def split: if_splits)
  from r1 have r1': "1 < length (x ! 0)" "r1 = x ! 0 ! 1"
    by (auto simp del: One_nat_def simp: np_getitem_def split: if_splits)
  note D1 = d1 [unfolded r0'(2)]
  note D2 = d2 [unfolded r1'(2)]
  show ?thesis
    by (rule exI [of _ s1], rule exI [of _ x], rule exI [of _ d1], rule exI [of _ d2])
       (intro conjI s1 x r0'(1) r1'(1) D1 D2 f1 f2)
qed

text \<open>The columns and the index of the two frames of a returning call.\<close>

lemma generate_data_frames:
  assumes "generate_data self params st w = (Inr (df1, df2), w')"
  shows "\<exists>s1 x.
           map_of (data self) (a1_name self) = Some s1 \<and>
           generator_fn self (episode_num_records s1) params w = (Inr x, w') \<and>
           df_index df1 = (if st \<noteq> 0 then test_index s1 else train_index s1) \<and>
           df_index df2 = (if st \<noteq> 0 then test_index s1 else train_index s1) \<and>
           (\<forall>k. map_of (df_columns df1) k =
              (if k \<in> set (names self) then Some (pd_broadcast (length (df_index df1)) (x ! 0 ! 0))
               else None)) \<and>
           (\<forall>k. map_of (df_columns df2) k =
              (if k \<in> set (names self) then Some (pd_broadcast (length (df_index df2)) (x ! 0 ! 1))
               else None)) \<and>
           (\<forall>c\<in>set (df_columns df1). snd c = pd_broadcast (length (df_index df1)) (x ! 0 ! 0)) \<and>
           (\<forall>c\<in>set (df_columns df2). snd c = pd_broadcast (length (df_index df2)) (x ! 0 ! 1)) \<and>
           df_columns df1 =
             map (\<lambda>k. (k, pd_broadcast (length (df_index df1)) (x ! 0 ! 0))) (map fst (df_columns df1)) \<and>
           df_columns df2 =
             map (\<lambda>k. (k, pd_broadcast (length (df_index df2)) (x ! 0 ! 1))) (map fst (df_columns df2)) \<and>
           (distinct (names self) \<longrightarrow>
              map fst (df_columns df1) = names self \<and> map fst (df_columns df2) = names self)"
proof -
  let ?f = "\<lambda>r name. case py_getitem (columns_map self) name of
                        Inl e \<Rightarrow> Inl e
                      | Inr k \<Rightarrow> py_getitem [(''mean'', r), (''maximum'', r),
                                                (''minimum'', r), (''last'', r)] k"
  from generate_data_Inr [OF assms] obtain s1 x d1 d2 where
    s1: "map_of (data self) (a1_name self) = Some s1" and
    x: "generator_fn self (episode_num_records s1) params w = (Inr x, w')" and
    d1: "dict_comp (?f (x ! 0 ! 0)) (names self) [] = Inr d1" and
    d2: "dict_comp (?f (x ! 0 ! 1)) (names self) [] = Inr d2" and
    f1: "pd_DataFrame d1 (if st \<noteq> 0 then test_index s1 else train_index s1) = Inr df1" and
    f2: "pd_DataFrame d2 (if st \<noteq> 0 then test_index s1 else train_index s1) = Inr df2"
    by (elim exE conjE) (rule that)
  let ?idx = "if st \<noteq> 0 then test_index s1 else train_index s1"
  from pd_DataFrame_Inr [OF f1] have
    c1: "df_columns df1 = map (\<lambda>(name, v). (name, pd_broadcast (length ?idx) v)) d1" and
    i1: "df_index df1 = ?idx" and
    a1: "list_all (\<lambda>c. length (snd c) = length ?idx \<or> length (snd c) = 1) d1"
    by simp_all
  from pd_DataFrame_Inr [OF f2] have
    c2: "df_columns df2 = map (\<lambda>(name, v). (name, pd_broadcast (length ?idx) v)) d2" and
    i2: "df_index df2 = ?idx" and
    a2: "list_all (\<lambda>c. length (snd c) = length ?idx \<or> length (snd c) = 1) d2"
    by simp_all
  note o1 = ohlc_columns [OF d1] and o2 = ohlc_columns [OF d2]
  note b1 = broadcast_columns [where d = d1 and r = "x ! 0 ! 0" and ns = "set (names self)"
      and n = "length ?idx", OF o1(3) o1(2) o1(1)]
  note b2 = broadcast_columns [where d = d2 and r = "x ! 0 ! 1" and ns = "set (names self)"
      and n = "length ?idx", OF o2(3) o2(2) o2(1)]
  have m1: "map fst (df_columns df1) = map fst d1" and m2: "map fst (df_columns df2) = map fst d2"
    by (simp_all add: c1 c2 case_prod_beta)
  have e1: "df_columns df1 =
      map (\<lambda>k. (k, pd_broadcast (length ?idx) (x ! 0 ! 0))) (map fst (df_columns df1))"
    using o1(3) by (simp add: c1 case_prod_beta)
  have e2: "df_columns df2 =
      map (\<lambda>k. (k, pd_broadcast (length ?idx) (x ! 0 ! 1))) (map fst (df_columns df2))"
    using o2(3) by (simp add: c2 case_prod_beta)
  have q1: "\<forall>k. map_of (df_columns df1) k =
      (if k \<in> set (names self) then Some (pd_broadcast (length (df_index df1)) (x ! 0 ! 0)) else None)"
    unfolding i1 c1 using b1(1) by simp
  have q2: "\<forall>k. map_of (df_columns df2) k =
      (if k \<in> set (names self) then Some (pd_broadcast (length (df_index df2)) (x ! 0 ! 1)) else None)"
    unfolding i2 c2 using b2(1) by simp
  have q3: "\<forall>c\<in>set (df_columns df1). snd c = pd_broadcast (length (df_index df1)) (x ! 0 ! 0)"
    unfolding i1 c1 using b1(2) by blast
  have q4: "\<forall>c\<in>set (df_columns df2). snd c = pd_broadcast (length (df_index df2)) (x ! 0 ! 1)"
    unfolding i2 c2 using b2(2) by blast
  have q6: "df_columns df1 =
      map (\<lambda>k. (k, pd_broadcast (length (df_index df1)) (x ! 0 ! 0))) (map fst (df_columns df1))"
    using e1 unfolding i1 .
  have q7: "df_columns df2 =
      map (\<lambda>k. (k, pd_broadcast (length (df_index df2)) (x ! 0 ! 1))) (map fst (df_columns df2))"
    using e2 unfolding i2 .
  have q8: "distinct (names self) \<longrightarrow>
      map fst (df_columns df1) = names self \<and> map fst (df_columns df2) = names self"
    using dict_comp_keys_distinct [OF d1] dict_comp_keys_distinct [OF d2] m1 m2 by simp
  show ?thesis
    by (rule exI [of _ s1], rule exI [of _ x]) (intro conjI s1 x i1 i2 q1 q2 q3 q4 q6 q7 q8)
qed

lemma generate_data_returns:
  fixes x :: "'v ndarray3"
  assumes s1: "map_of (data self) (a1_name self) = Some s1"
    and x: "generator_fn self (episode_num_records s1) params w = (Inr x, w')"
    and shape: "has_shape x 1 2 n"
    and cols: "\<forall>nm\<in>set (names self). \<exists>k. map_of (columns_map self) nm = Some k \<and>
                 k \<in> {''mean'', ''maximum'', ''minimum'', ''last''}"
    and idx: "names self = [] \<or> length (if st \<noteq> 0 then test_index s1 else train_index s1) = n"
  shows "length (x ! 0 ! 0) = n \<and> length (x ! 0 ! 1) = n \<and>
         (\<exists>df1 df2. generate_data self params st w = (Inr (df1, df2), w'))"
proof -
  let ?idx = "if st \<noteq> 0 then test_index s1 else train_index s1"
  let ?f = "\<lambda>r name. case py_getitem (columns_map self) name of
                        Inl e \<Rightarrow> Inl e
                      | Inr k \<Rightarrow> py_getitem [(''mean'', r), (''maximum'', r),
                                                (''minimum'', r), (''last'', r)] k"
  from shape have "length x = 1" by (simp add: has_shape_def)
  then obtain rows where xr: "x = [rows]" by (cases x) auto
  from shape have lr: "length rows = 2" and ls: "\<forall>r\<in>set rows. length r = n"
    by (simp_all add: has_shape_def list_all_iff xr)
  from lr have r0: "np_getitem x 0 0 = Inr (x ! 0 ! 0)" and r1: "np_getitem x 0 1 = Inr (x ! 0 ! 1)"
    by (simp_all add: np_getitem_def xr)
  from lr have "rows ! 0 \<in> set rows" "rows ! 1 \<in> set rows"
    by (simp_all del: One_nat_def)
  with ls have l0: "length (x ! 0 ! 0) = n" and l1: "length (x ! 0 ! 1) = n"
    by (simp_all del: One_nat_def add: xr)
  have ret: "\<exists>d. dict_comp (?f r) (names self) [] = Inr d" for r :: "'v list"
  proof (rule dict_comp_returns)
    fix nm assume "nm \<in> set (names self)"
    with cols obtain k where "map_of (columns_map self) nm = Some k"
      "k \<in> {''mean'', ''maximum'', ''minimum'', ''last''}" by blast
    from ohlc_lookup_returns [OF this, of r] show "\<exists>v. ?f r nm = Inr v" by blast
  qed
  from ret [of "x ! 0 ! 0"]
  obtain d1 where d1: "dict_comp (?f (x ! 0 ! 0)) (names self) [] = Inr d1" ..
  from ret [of "x ! 0 ! 1"]
  obtain d2 where d2: "dict_comp (?f (x ! 0 ! 1)) (names self) [] = Inr d2" ..
  have e1: "d1 = []" and e2: "d2 = []" if "names self = []"
    using d1 d2 that by simp_all
  have a1: "list_all (\<lambda>c. length (snd c) = length ?idx \<or> length (snd c) = 1) d1"
    using idx e1 ohlc_columns(3) [OF d1] l0 by (auto simp: list_all_iff)
  have a2: "list_all (\<lambda>c. length (snd c) = length ?idx \<or> length (snd c) = 1) d2"
    using idx e2 ohlc_columns(3) [OF d2] l1 by (auto simp: list_all_iff)
  from a1 obtain df1 where f1: "pd_DataFrame d1 ?idx = Inr df1"
    by (simp add: pd_DataFrame_def)
  from a2 obtain df2 where f2: "pd_DataFrame d2 ?idx = Inr df2"
    by (simp add: pd_DataFrame_def)
  have "generate_data self params st w = (Inr (df1, df2), w')"
    using s1 x r0 r1 d1 d2 f1 f2 by (simp del: One_nat_def add: generate_data_def Let_def)
  with l0 l1 show ?thesis by blast
qed

lemmas ex_defs = ex_generator_def ex_base_def ex_stream_def ex_model_def ex_numpy_def
  ex_trajectory_def ex_params_def ex_frame_def ex_state_def default_columns_map_def
  BasePairDataGenerator.defs SimpleBivariateGenerator.defs

lemma ex_generator_fn:
  "generator_fn ex_generator 3 ex_params w = (Inr [[[100, 100, 100], [200, 200, 200]]], Suc w)"
  by (simp add: ex_defs call_bivariate_generator_fn_def bivariate_generator_fn_def np_around_def)

lemma ex_generate_data:
  "generate_data ex_generator ex_params 0 w =
     (Inr (ex_frame [100, 100, 100] [0, 1, 2], ex_frame [200, 200, 200] [0, 1, 2]), Suc w)"
  "generate_data ex_generator ex_params 1 w =
     (Inr (ex_frame [100, 100, 100] [10, 11, 12], ex_frame [200, 200, 200] [10, 11, 12]), Suc w)"
  by (simp_all add: generate_data_def ex_defs call_bivariate_generator_fn_def
        bivariate_generator_fn_def np_around_def np_getitem_def py_getitem_def pd_DataFrame_def
        pd_broadcast_def Let_def)

text \<open>
  Claim C2. Let the first asset's stream be \<open>s1\<close> and let the generator function, called
  with \<open>num_points = episode_num_records s1\<close> and the given parameters, return an array \<open>x\<close>
  of shape \<open>[1, 2, n]\<close>. If every name in \<open>names\<close> is mapped by \<open>columns_map\<close> to one of
  the four aggregates and the index chosen has length \<open>n\<close> (or there is no column at
  all), then \<open>generate_data\<close> returns a pair of dataframes. Every column of the first is
  row 0 of \<open>x\<close>, every column of the second is row 1, and the columns are exactly the
  names in \<open>names\<close>, in their order when they are distinct.
\<close>

theorem generate_data_pair:
  fixes x :: "'v ndarray3"
  assumes s1: "map_of (data self) (a1_name self) = Some s1"
    and x: "generator_fn self (episode_num_records s1) params w = (Inr x, w')"
    and shape: "has_shape x 1 2 n"
    and cols: "\<forall>nm\<in>set (names self). \<exists>k. map_of (columns_map self) nm = Some k \<and>
                 k \<in> {''mean'', ''maximum'', ''minimum'', ''last''}"
    and idx: "names self = [] \<or> length (if st \<noteq> 0 then test_index s1 else train_index s1) = n"
  shows "\<exists>df1 df2.
           generate_data self params st w = (Inr (df1, df2), w') \<and>
           (\<forall>k. map_of (df_columns df1) k = (if k \<in> set (names self) then Some (x ! 0 ! 0) else None)) \<and>
           (\<forall>k. map_of (df_columns df2) k = (if k \<in> set (names self) then Some (x ! 0 ! 1) else None)) \<and>
           (\<forall>c\<in>set (df_columns df1). snd c = x ! 0 ! 0) \<and>
           (\<forall>c\<in>set (df_columns df2). snd c = x ! 0 ! 1) \<and>
           (distinct (names self) \<longrightarrow>
              df_columns df1 = map (\<lambda>nm. (nm, x ! 0 ! 0)) (names self) \<and>
              df_columns df2 = map (\<lambda>nm. (nm, x ! 0 ! 1)) (names self))"
proof -
  let ?idx = "if st \<noteq> 0 then test_index s1 else train_index s1"
  from generate_data_returns [OF s1 x shape cols idx]
  obtain df1 df2 where l0: "length (x ! 0 ! 0) = n" and l1: "length (x ! 0 ! 1) = n"
    and g: "generate_data self params st w = (Inr (df1, df2), w')"
    by (elim exE conjE) (rule that)
  from generate_data_frames [OF g] obtain s1' x' where
    s1': "map_of (data self) (a1_name self) = Some s1'" and
    x': "generator_fn self (episode_num_records s1') params w = (Inr x', w')" and
    i1: "df_index df1 = (if st \<noteq> 0 then test_index s1' else train_index s1')" and
    i2: "df_index df2 = (if st \<noteq> 0 then test_index s1' else train_index s1')" and
    q1: "\<forall>k. map_of (df_columns df1) k =
           (if k \<in> set (names self) then Some (pd_broadcast (length (df_index df1)) (x' ! 0 ! 0))
            else None)" and
    q2: "\<forall>k. map_of (df_columns df2) k =
           (if k \<in> set (names self) then Some (pd_broadcast (length (df_index df2)) (x' ! 0 ! 1))
            else None)" and
    q3: "\<forall>c\<in>set (df_columns df1). snd c = pd_broadcast (length (df_index df1)) (x' ! 0 ! 0)" and
    q4: "\<forall>c\<in>set (df_columns df2). snd c = pd_broadcast (length (df_index df2)) (x' ! 0 ! 1)" and
    q6: "df_columns df1 =
           map (\<lambda>k. (k, pd_broadcast (length (df_index df1)) (x' ! 0 ! 0))) (map fst (df_columns df1))" and
    q7: "df_columns df2 =
           map (\<lambda>k. (k, pd_broadcast (length (df_index df2)) (x' ! 0 ! 1))) (map fst (df_columns df2))" and
    q8: "distinct (names self) \<longrightarrow>
           map fst (df_columns df1) = names self \<and> map fst (df_columns df2) = names self"
    by (elim exE conjE) (rule that)
  from s1 s1' have se: "s1' = s1" by simp
  from x x' have xe: "x' = x" unfolding se by simp
  show ?thesis
  proof (cases "names self = []")
    case True
    from q1 True have "map_of (df_columns df1) = Map.empty" by (simp add: fun_eq_iff)
    then have z1: "df_columns df1 = []" by (simp only: map_of_eq_empty_iff)
    from q2 True have "map_of (df_columns df2) = Map.empty" by (simp add: fun_eq_iff)
    then have z2: "df_columns df2 = []" by (simp only: map_of_eq_empty_iff)
    show ?thesis
      by (rule exI [of _ df1], rule exI [of _ df2]) (simp add: g z1 z2 True)
  next
    case False
    with idx have li: "length ?idx = n" by simp
    have "length (df_index df1) = n" unfolding i1 se by (rule li)
    moreover have "length (df_index df2) = n" unfolding i2 se by (rule li)
    ultimately have b1: "pd_broadcast (length (df_index df1)) (x ! 0 ! 0) = x ! 0 ! 0"
      and b2: "pd_broadcast (length (df_index df2)) (x ! 0 ! 1) = x ! 0 ! 1"
      using l0 l1 by (simp_all add: pd_broadcast_same)
    note r1 = q1 [unfolded xe b1] and r2 = q2 [unfolded xe b2]
      and r3 = q3 [unfolded xe b1] and r4 = q4 [unfolded xe b2]
      and r6 = q6 [unfolded xe b1] and r7 = q7 [unfolded xe b2]
    have r8: "distinct (names self) \<longrightarrow>
        df_columns df1 = map (\<lambda>nm. (nm, x ! 0 ! 0)) (names self) \<and>
        df_columns df2 = map (\<lambda>nm. (nm, x ! 0 ! 1)) (names self)"
    proof
      assume "distinct (names self)"
      with q8 have "map fst (df_columns df1) = names self" "map fst (df_columns df2) = names self"
        by simp_all
      with r6 r7 show "df_columns df1 = map (\<lambda>nm. (nm, x ! 0 ! 0)) (names self) \<and>
        df_columns df2 = map (\<lambda>nm. (nm, x ! 0 ! 1)) (names self)"
        by simp
    qed
    show ?thesis
      by (rule exI [of _ df1], rule exI [of _ df2]) (intro conjI g r1 r2 r3 r4 r8)
  qed
qed

lemma ex_generator_stream:
  "map_of (data ex_generator) (a1_name ex_generator) = Some (ex_stream ''a.csv'')"
  by (simp add: ex_generator_def ex_base_def BasePairDataGenerator.defs)

lemma ex_generator_names:
  "names ex_generator = [''open'', ''high'', ''low'', ''close'']"
  "columns_map ex_generator = default_columns_map"
  by (simp_all add: ex_generator_def ex_base_def BasePairDataGenerator.defs
        SimpleBivariateGenerator.defs)

theorem generate_data_pair_witness:
  "map_of (data ex_generator) (a1_name ex_generator) = Some (ex_stream ''a.csv'') \<and>
   generator_fn ex_generator (episode_num_records (ex_stream ''a.csv'')) ex_params 0 =
     (Inr [[[100, 100, 100], [200, 200, 200]]], 1) \<and>
   has_shape [[[100, 100, 100], [200, 200, 200 :: int]]] 1 2 3 \<and>
   length (train_index (ex_stream ''a.csv'')) = 3 \<and>
   (\<exists>df1 df2. generate_data ex_generator ex_params 0 0 = (Inr (df1, df2), 1) \<and>
      df_columns df1 = [(''open'', [100, 100, 100]), (''high'', [100, 100, 100]),
                        (''low'', [100, 100, 100]), (''close'', [100, 100, 100])] \<and>
      df_columns df2 = [(''open'', [200, 200, 200]), (''high'', [200, 200, 200]),
                        (''low'', [200, 200, 200]), (''close'', [200, 200, 200])])"
proof -
  have h2: "generator_fn ex_generator (episode_num_records (ex_stream ''a.csv'')) ex_params 0 =
      (Inr [[[100, 100, 100], [200, 200, 200]]], 1)"
    using ex_generator_fn [of 0] by (simp add: ex_stream_def)
  have h3: "has_shape [[[100, 100, 100], [200, 200, 200 :: int]]] 1 2 3"
    by (simp add: has_shape_def)
  have h4: "\<forall>nm\<in>set (names ex_generator). \<exists>k. map_of (columns_map ex_generator) nm = Some k \<and>
      k \<in> {''mean'', ''maximum'', ''minimum'', ''last''}"
    by (simp add: ex_generator_names default_columns_map_def)
  have l: "length (train_index (ex_stream ''a.csv'')) = 3"
    by (simp add: ex_stream_def)
  then have h5: "names ex_generator = [] \<or>
      length (if (0::int) \<noteq> 0 then test_index (ex_stream ''a.csv'')
              else train_index (ex_stream ''a.csv'')) = 3"
    by simp
  have d: "distinct (names ex_generator)"
    by (simp add: ex_generator_names)
  from generate_data_pair [OF ex_generator_stream h2 h3 h4 h5] d
  have "\<exists>df1 df2. generate_data ex_generator ex_params 0 0 = (Inr (df1, df2), 1) \<and>
      df_columns df1 = map (\<lambda>nm. (nm, [100, 100, 100])) (names ex_generator) \<and>
      df_columns df2 = map (\<lambda>nm. (nm, [200, 200, 200])) (names ex_generator)"
    by (simp del: One_nat_def) blast
  then show ?thesis
    using ex_generator_stream h2 h3 l by (simp add: ex_generator_names)
qed

text \<open>
  Claim C5 as stated, refuted. The generator holds one record per episode, a train index
  of three and a test index of five entries. The generated rows hold one value each,
  which pandas repeats over the index: the columns have three values for
  \<open>sample_type = 0\<close> and five for \<open>sample_type = 1\<close>, so they are not identical.
\<close>

theorem generate_data_columns_counterexample:
  "generate_data ex_generator_one ex_params 0 0 =
     (Inr (ex_frame [100, 100, 100] [0, 1, 2], ex_frame [200, 200, 200] [0, 1, 2]), 1) \<and>
   generate_data ex_generator_one ex_params 1 0 =
     (Inr (ex_frame [100, 100, 100, 100, 100] [10, 11, 12, 13, 14],
           ex_frame [200, 200, 200, 200, 200] [10, 11, 12, 13, 14]), 1) \<and>
   df_columns (ex_frame [100, 100, 100] [0, 1, 2]) \<noteq>
     df_columns (ex_frame [100, 100, 100, 100, 100] [10, 11, 12, 13, 14])"
  by (simp add: generate_data_def ex_generator_one_def ex_stream_one_def ex_model_one_def
        ex_base_def ex_numpy_def ex_params_def ex_frame_def ex_state_def default_columns_map_def
        BasePairDataGenerator.defs SimpleBivariateGenerator.defs
        call_bivariate_generator_fn_def bivariate_generator_fn_def np_around_def np_getitem_def
        py_getitem_def pd_DataFrame_def pd_broadcast_def Let_def)

text \<open>
  Claim C5, amended. When \<open>generate_data\<close> returns, both dataframes carry the same index:
  the first asset's \<open>train_index\<close> for \<open>sample_type = 0\<close> and its \<open>test_index\<close> for every
  other \<open>sample_type\<close>. Any other call with the same parameters in the same world that
  returns, returns the same columns, provided the generated rows do not hold a single
  value or the two calls use indices of the same length. (A single value is repeated over
  the index, so then the columns are as long as the index chosen.)
\<close>

theorem generate_data_index:
  assumes "generate_data self params st w = (Inr (df1, df2), w')"
  shows "\<exists>s1 x. map_of (data self) (a1_name self) = Some s1 \<and>
           generator_fn self (episode_num_records s1) params w = (Inr x, w') \<and>
           df_index df1 = (if st = 0 then train_index s1 else test_index s1) \<and>
           df_index df2 = (if st = 0 then train_index s1 else test_index s1) \<and>
           (\<forall>st' df1' df2' w''.
              generate_data self params st' w = (Inr (df1', df2'), w'') \<longrightarrow>
              length (x ! 0 ! 0) \<noteq> 1 \<or> length (df_index df1') = length (df_index df1) \<longrightarrow>
              df_columns df1' = df_columns df1 \<and> df_columns df2' = df_columns df2)"
proof -
  let ?f = "\<lambda>r name. case py_getitem (columns_map self) name of
                        Inl e \<Rightarrow> Inl e
                      | Inr k \<Rightarrow> py_getitem [(''mean'', r), (''maximum'', r),
                                                (''minimum'', r), (''last'', r)] k"
  from generate_data_Inr [OF assms] obtain s1 x d1 d2 where
    s1: "map_of (data self) (a1_name self) = Some s1" and
    x: "generator_fn self (episode_num_records s1) params w = (Inr x, w')" and
    d1: "dict_comp (?f (x ! 0 ! 0)) (names self) [] = Inr d1" and
    d2: "dict_comp (?f (x ! 0 ! 1)) (names self) [] = Inr d2" and
    f1: "pd_DataFrame d1 (if st \<noteq> 0 then test_index s1 else train_index s1) = Inr df1" and
    f2: "pd_DataFrame d2 (if st \<noteq> 0 then test_index s1 else train_index s1) = Inr df2"
    by (elim exE conjE) (rule that)
  let ?idx = "if st \<noteq> 0 then test_index s1 else train_index s1"
  from pd_DataFrame_Inr [OF f1] have
    c1: "df_columns df1 = map (\<lambda>(name, v). (name, pd_broadcast (length ?idx) v)) d1" and
    i1: "df_index df1 = ?idx" and
    a1: "list_all (\<lambda>c. length (snd c) = length ?idx \<or> length (snd c) = 1) d1"
    by simp_all
  from pd_DataFrame_Inr [OF f2] have
    c2: "df_columns df2 = map (\<lambda>(name, v). (name, pd_broadcast (length ?idx) v)) d2" and
    i2: "df_index df2 = ?idx"
    by simp_all
  have same: "df_columns df1' = df_columns df1 \<and> df_columns df2' = df_columns df2"
    if g: "generate_data self params st' w = (Inr (df1', df2'), w'')"
      and h: "length (x ! 0 ! 0) \<noteq> 1 \<or> length (df_index df1') = length (df_index df1)"
    for st' df1' df2' w''
  proof -
    from generate_data_Inr [OF g] obtain t1 y e1 e2 where
      t1: "map_of (data self) (a1_name self) = Some t1" and
      y: "generator_fn self (episode_num_records t1) params w = (Inr y, w'')" and
      e1: "dict_comp (?f (y ! 0 ! 0)) (names self) [] = Inr e1" and
      e2: "dict_comp (?f (y ! 0 ! 1)) (names self) [] = Inr e2" and
      g1: "pd_DataFrame e1 (if st' \<noteq> 0 then test_index t1 else train_index t1) = Inr df1'" and
      g2: "pd_DataFrame e2 (if st' \<noteq> 0 then test_index t1 else train_index t1) = Inr df2'"
      by (elim exE conjE) (rule that)
    from s1 t1 have ts: "t1 = s1" by simp
    from x y have yx: "y = x" unfolding ts by simp
    from trans [OF e1 [unfolded yx, symmetric] d1] have ed1: "e1 = d1" by simp
    from trans [OF e2 [unfolded yx, symmetric] d2] have ed2: "e2 = d2" by simp
    let ?idx' = "if st' \<noteq> 0 then test_index s1 else train_index s1"
    from pd_DataFrame_Inr [OF g1 [unfolded ts ed1]] have
      c1': "df_columns df1' = map (\<lambda>(name, v). (name, pd_broadcast (length ?idx') v)) d1" and
      i1': "df_index df1' = ?idx'" and
      a1': "list_all (\<lambda>c. length (snd c) = length ?idx' \<or> length (snd c) = 1) d1"
      by simp_all
    from pd_DataFrame_Inr [OF g2 [unfolded ts ed2]] have
      c2': "df_columns df2' = map (\<lambda>(name, v). (name, pd_broadcast (length ?idx') v)) d2"
      by simp
    show ?thesis
    proof (cases "names self = []")
      case True
      with d1 d2 have "d1 = []" "d2 = []" by simp_all
      then show ?thesis by (simp add: c1 c2 c1' c2')
    next
      case False
      have "length ?idx' = length ?idx"
      proof (cases "length (x ! 0 ! 0) = 1")
        case True
        with h show ?thesis by (simp only: i1 i1') simp
      next
        case nl: False
        from False obtain nm where nm: "nm \<in> set (names self)" by (cases "names self") auto
        from ohlc_columns(1) [OF d1, of nm] nm have m: "(nm, x ! 0 ! 0) \<in> set d1"
          by (simp add: map_of_SomeD)
        from a1 m nl have "length (x ! 0 ! 0) = length ?idx" by (auto simp: list_all_iff)
        moreover from a1' m nl have "length (x ! 0 ! 0) = length ?idx'" by (auto simp: list_all_iff)
        ultimately show ?thesis by simp
      qed
      then show ?thesis by (simp only: c1 c2 c1' c2')
    qed
  qed
  have j1: "df_index df1 = (if st = 0 then train_index s1 else test_index s1)"
    and j2: "df_index df2 = (if st = 0 then train_index s1 else test_index s1)"
    using i1 i2 by simp_all
  have all: "\<forall>st' df1' df2' w''.
      generate_data self params st' w = (Inr (df1', df2'), w'') \<longrightarrow>
      length (x ! 0 ! 0) \<noteq> 1 \<or> length (df_index df1') = length (df_index df1) \<longrightarrow>
      df_columns df1' = df_columns df1 \<and> df_columns df2' = df_columns df2"
    using same by blast
  show ?thesis
    by (rule exI [of _ s1], rule exI [of _ x]) (intro conjI s1 x j1 j2 all)
qed

theorem generate_data_index_witness:
  "generate_data ex_generator ex_params 0 0 =
     (Inr (ex_frame [100, 100, 100] [0, 1, 2], ex_frame [200, 200, 200] [0, 1, 2]), 1) \<and>
   generate_data ex_generator ex_params 1 0 =
     (Inr (ex_frame [100, 100, 100] [10, 11, 12], ex_frame [200, 200, 200] [10, 11, 12]), 1) \<and>
   train_index (ex_stream ''a.csv'') = [0, 1, 2] \<and>
   test_index (ex_stream ''a.csv'') = [10, 11, 12] \<and>
   length (df_index (ex_frame [100, 100, 100] [10, 11, 12])) =
     length (df_index (ex_frame [100, 100, 100] [0, 1, 2])) \<and>
   df_index (ex_frame [100, 100, 100] [0, 1, 2]) = train_index (ex_stream ''a.csv'') \<and>
   df_index (ex_frame [200, 200, 200] [10, 11, 12]) = test_index (ex_stream ''a.csv'') \<and>
   df_columns (ex_frame [100, 100, 100] [10, 11, 12]) = df_columns (ex_frame [100, 100, 100] [0, 1, 2])"
proof -
  have g0: "generate_data ex_generator ex_params 0 0 =
      (Inr (ex_frame [100, 100, 100] [0, 1, 2], ex_frame [200, 200, 200] [0, 1, 2]), 1)"
    using ex_generate_data(1) [of 0] by simp
  have g1: "generate_data ex_generator ex_params 1 0 =
      (Inr (ex_frame [100, 100, 100] [10, 11, 12], ex_frame [200, 200, 200] [10, 11, 12]), 1)"
    using ex_generate_data(2) [of 0] by simp
  have l: "length (df_index (ex_frame [100, 100, 100] [10, 11, 12])) =
     length (df_index (ex_frame [100, 100, 100] [0, 1, 2 :: nat]))"
    by (simp add: ex_frame_def)
  from generate_data_index [OF g0] obtain s1 x where
    s1: "map_of (data ex_generator) (a1_name ex_generator) = Some s1" and
    "generator_fn ex_generator (episode_num_records s1) ex_params 0 = (Inr x, 1)" and
    i0: "df_index (ex_frame [100, 100, 100] [0, 1, 2]) =
           (if (0::int) = 0 then train_index s1 else test_index s1)" and
    al: "\<forall>st' df1' df2' w''.
           generate_data ex_generator ex_params st' 0 = (Inr (df1', df2'), w'') \<longrightarrow>
           length (x ! 0 ! 0) \<noteq> 1 \<or>
             length (df_index df1') = length (df_index (ex_frame [100, 100, 100] [0, 1, 2])) \<longrightarrow>
           df_columns df1' = df_columns (ex_frame [100, 100, 100] [0, 1, 2]) \<and>
           df_columns df2' = df_columns (ex_frame [200, 200, 200] [0, 1, 2])"
    by (elim exE conjE) (rule that)
  from s1 ex_generator_stream have se: "s1 = ex_stream ''a.csv''" by simp
  from i0 have a: "df_index (ex_frame [100, 100, 100] [0, 1, 2]) = train_index (ex_stream ''a.csv'')"
    unfolding se by simp
  from al [rule_format, OF g1 disjI2 [OF l]]
  have c: "df_columns (ex_frame [100, 100, 100] [10, 11, 12]) =
      df_columns (ex_frame [100, 100, 100] [0, 1, 2])"
    by (rule conjunct1)
  from generate_data_index [OF g1] ex_generator_stream
  have b: "df_index (ex_frame [200, 200, 200] [10, 11, 12]) = test_index (ex_stream ''a.csv'')"
    by auto
  show ?thesis
    using g0 g1 a b c l by (simp add: ex_stream_def)
qed

lemma SimpleBivariateGenerator_init_columns_map:
  "SimpleBivariateGenerator_init M np base_init dn cfg gf gpf nm kw w = (Inr g, w') \<Longrightarrow>
   columns_map g = default_columns_map"
  by (auto simp: SimpleBivariateGenerator_init_def BasePairDataGenerator.defs
        SimpleBivariateGenerator.defs split: prod.splits sum.splits)

text \<open>
  Claim C8. In each dataframe \<open>generate_data\<close> returns, all columns hold one and the same
  series, and every name in \<open>names\<close> is a column holding it; so open, high, low and close
  agree at every index. The column map the constructor installs sends \<open>open\<close> and \<open>mid\<close>
  to \<open>mean\<close>, \<open>high\<close> and \<open>ask\<close> to \<open>maximum\<close>, \<open>low\<close> and \<open>bid\<close> to \<open>minimum\<close>, and
  \<open>close\<close> to \<open>last\<close>.
\<close>

theorem generate_data_columns_identical:
  assumes "generate_data self params st w = (Inr (df1, df2), w')"
  shows "(\<exists>r. (\<forall>c\<in>set (df_columns df1). snd c = r) \<and>
              (\<forall>k\<in>set (names self). map_of (df_columns df1) k = Some r)) \<and>
         (\<exists>r. (\<forall>c\<in>set (df_columns df2). snd c = r) \<and>
              (\<forall>k\<in>set (names self). map_of (df_columns df2) k = Some r)) \<and>
         (columns_map self = default_columns_map \<longrightarrow>
            map (map_of (columns_map self))
              [''open'', ''mid'', ''high'', ''ask'', ''low'', ''bid'', ''close''] =
            [Some ''mean'', Some ''mean'', Some ''maximum'', Some ''maximum'',
             Some ''minimum'', Some ''minimum'', Some ''last''])"
proof -
  from generate_data_frames [OF assms] obtain s1 x where
    "map_of (data self) (a1_name self) = Some s1" and
    "generator_fn self (episode_num_records s1) params w = (Inr x, w')" and
    q1: "\<forall>k. map_of (df_columns df1) k =
           (if k \<in> set (names self) then Some (pd_broadcast (length (df_index df1)) (x ! 0 ! 0))
            else None)" and
    q2: "\<forall>k. map_of (df_columns df2) k =
           (if k \<in> set (names self) then Some (pd_broadcast (length (df_index df2)) (x ! 0 ! 1))
            else None)" and
    q3: "\<forall>c\<in>set (df_columns df1). snd c = pd_broadcast (length (df_index df1)) (x ! 0 ! 0)" and
    q4: "\<forall>c\<in>set (df_columns df2). snd c = pd_broadcast (length (df_index df2)) (x ! 0 ! 1)"
    by (elim exE conjE) (rule that)
  have a: "\<exists>r. (\<forall>c\<in>set (df_columns df1). snd c = r) \<and>
              (\<forall>k\<in>set (names self). map_of (df_columns df1) k = Some r)"
    using q1 q3 by (intro exI [of _ "pd_broadcast (length (df_index df1)) (x ! 0 ! 0)"]) simp
  have b: "\<exists>r. (\<forall>c\<in>set (df_columns df2). snd c = r) \<and>
              (\<forall>k\<in>set (names self). map_of (df_columns df2) k = Some r)"
    using q2 q4 by (intro exI [of _ "pd_broadcast (length (df_index df2)) (x ! 0 ! 1)"]) simp
  have c: "columns_map self = default_columns_map \<longrightarrow>
            map (map_of (columns_map self))
              [''open'', ''mid'', ''high'', ''ask'', ''low'', ''bid'', ''close''] =
            [Some ''mean'', Some ''mean'', Some ''maximum'', Some ''maximum'',
             Some ''minimum'', Some ''minimum'', Some ''last'']"
    by (simp add: default_columns_map_def)
  from a b c show ?thesis by (intro conjI)
qed

theorem generate_data_columns_identical_witness:
  "generate_data ex_generator ex_params 0 0 =
     (Inr (ex_frame [100, 100, 100] [0, 1, 2], ex_frame [200, 200, 200] [0, 1, 2]), 1) \<and>
   columns_map ex_generator = default_columns_map \<and>
   map (map_of (df_columns (ex_frame [100, 100, 100] [0, 1, 2])))
     [''open'', ''high'', ''low'', ''close''] =
     [Some [100, 100, 100], Some [100, 100, 100], Some [100, 100, 100], Some [100, 100, 100]] \<and>
   map (map_of (columns_map ex_generator))
     [''open'', ''mid'', ''high'', ''ask'', ''low'', ''bid'', ''close''] =
     [Some ''mean'', Some ''mean'', Some ''maximum'', Some ''maximum'',
      Some ''minimum'', Some ''minimum'', Some ''last'']"
proof -
  note g0 = ex_generate_data(1) [of 0, simplified]
  from generate_data_columns_identical [OF g0] ex_generator_names(2)
  have "map (map_of (columns_map ex_generator))
     [''open'', ''mid'', ''high'', ''ask'', ''low'', ''bid'', ''close''] =
     [Some ''mean'', Some ''mean'', Some ''maximum'', Some ''maximum'',
      Some ''minimum'', Some ''minimum'', Some ''last'']"
    by blast
  then show ?thesis
    using g0 ex_generator_names(2) by (simp add: ex_frame_def)
qed

subsection \<open>Sampling\<close>

lemma sample_Inr:
  assumes "sample M np base_init self st0 w = (Inr (smp, self'), log, w')"
  shows "\<exists>mtype sample0 w1 data1 data2 md0 s1 t1 t2.
           md_items (metadata self) ''type'' = Some mtype \<and>
           log = (case mtype of None \<Rightarrow> [] | Some t \<Rightarrow>
                    if t \<noteq> st0 then [Warning_overriden st0 t] else []) \<and>
           SimpleBivariateGenerator_init M np base_init
             (data_names self) (generator_parameters_config self) None None
             (Some (''sub_'' @ name self))
             \<lparr>kw_data_class_ref = data_class_ref self, kw_top_level = False,
              kw_nested = nested_kwargs self\<rparr> w = (Inr sample0, w1) \<and>
           (if get_new_sample self
            then \<exists>params w2 d1 d2.
                   generator_parameters_fn self (generator_parameters_config self) w1 =
                     (Inr params, w2) \<and>
                   generate_data self params (case mtype of None \<Rightarrow> st0 | Some t \<Rightarrow> t) w2 =
                     (Inr (d1, d2), w') \<and>
                   data1 = Some d1 \<and> data2 = Some d2 \<and> md0 = Some params
            else w' = w1 \<and> data1 = None \<and> data2 = None \<and> md0 = None) \<and>
           map_of (data self) (a1_name self) = Some s1 \<and>
           map_of (data sample0) (a1_name self) = Some t1 \<and>
           map_of (AList.update (a1_name self) (t1\<lparr>sdata := data1\<rparr>) (data sample0))
             (a2_name self) = Some t2 \<and>
           smp = sample0
             \<lparr>names := names self,
              metadata :=
                \<lparr>md_generator = md0,
                 md_items =
                   [''type'' \<mapsto> Some (case mtype of None \<Rightarrow> st0 | Some t \<Rightarrow> t),
                    ''sample_num'' \<mapsto> Some (sample_num self),
                    ''parent_sample_type'' \<mapsto> mtype,
                    ''parent_sample_num'' \<mapsto> Some (sample_num self),
                    ''first_row'' \<mapsto> Some 0,
                    ''last_row'' \<mapsto> Some (episode_num_records s1)]\<rparr>,
              data := AList.update (a2_name self) (t2\<lparr>sdata := data2\<rparr>)
                        (AList.update (a1_name self) (t1\<lparr>sdata := data1\<rparr>) (data sample0)),
              filename := map (\<lambda>(key, stream). (key, sfilename stream)) (data self)\<rparr> \<and>
           self' = self\<lparr>sample_num := sample_num self + 1\<rparr>"
  using assms unfolding sample_def
  by (auto simp: Let_def split: option.splits sum.splits prod.splits if_splits)


text \<open>
  Claim C10. A call to \<open>sample\<close> that returns leaves the parent as it was except for
  \<open>sample_num\<close>, which is one more than before. The metadata of the returned sample
  records the parent's \<open>sample_num\<close> from before the call under \<open>sample_num\<close> and
  \<open>parent_sample_num\<close>, 0 under \<open>first_row\<close>, and the first asset's
  \<open>episode_num_records\<close> under \<open>last_row\<close>.
\<close>

theorem sample_increments_sample_num:
  assumes "sample M np base_init self st0 w = (Inr (smp, self'), log, w')"
  shows "self' = self\<lparr>sample_num := sample_num self + 1\<rparr> \<and>
         md_items (metadata smp) ''sample_num'' = Some (Some (sample_num self)) \<and>
         md_items (metadata smp) ''parent_sample_num'' = Some (Some (sample_num self)) \<and>
         md_items (metadata smp) ''first_row'' = Some (Some 0) \<and>
         (\<exists>s1. map_of (data self) (a1_name self) = Some s1 \<and>
               md_items (metadata smp) ''last_row'' = Some (Some (episode_num_records s1)))"
  using sample_Inr [OF assms] by auto

text \<open>
  Claim C9. If the parent's metadata type is set to \<open>t\<close>, a call to \<open>sample\<close> that
  returns yields a sample whose metadata type is \<open>t\<close>, whatever type was requested; a
  warning is logged exactly when the requested type differs from \<open>t\<close>; the data, when
  generated, is generated for type \<open>t\<close>; and the parent's metadata type is still \<open>t\<close>.
\<close>

theorem sample_keeps_parent_type:
  assumes "sample M np base_init self st0 w = (Inr (smp, self'), log, w')"
    and "md_items (metadata self) ''type'' = Some (Some t)"
  shows "md_items (metadata smp) ''type'' = Some (Some t) \<and>
         md_items (metadata smp) ''parent_sample_type'' = Some (Some t) \<and>
         md_items (metadata self') ''type'' = Some (Some t) \<and>
         log = (if t \<noteq> st0 then [Warning_overriden st0 t] else []) \<and>
         (get_new_sample self \<longrightarrow>
            (\<exists>params w2 d1 d2. generate_data self params t w2 = (Inr (d1, d2), w')))"
proof -
  from sample_Inr [OF assms(1)] obtain mtype w1 data1 data2 md0 where
    mt: "md_items (metadata self) ''type'' = Some mtype" and
    lg: "log = (case mtype of None \<Rightarrow> [] | Some t \<Rightarrow>
                  if t \<noteq> st0 then [Warning_overriden st0 t] else [])" and
    br: "if get_new_sample self
            then \<exists>params w2 d1 d2.
                   generator_parameters_fn self (generator_parameters_config self) w1 =
                     (Inr params, w2) \<and>
                   generate_data self params (case mtype of None \<Rightarrow> st0 | Some t \<Rightarrow> t) w2 =
                     (Inr (d1, d2), w') \<and>
                   data1 = Some d1 \<and> data2 = Some d2 \<and> md0 = Some params
            else w' = w1 \<and> data1 = None \<and> data2 = None \<and> md0 = None" and
    ty: "md_items (metadata smp) ''type'' = Some (Some (case mtype of None \<Rightarrow> st0 | Some t \<Rightarrow> t))" and
    pt: "md_items (metadata smp) ''parent_sample_type'' = Some mtype" and
    sp: "self' = self\<lparr>sample_num := sample_num self + 1\<rparr>"
    by auto
  from mt assms(2) have m: "mtype = Some t" by simp
  from sp assms(2) have pa: "md_items (metadata self') ''type'' = Some (Some t)" by simp
  have gen: "\<exists>params w2 d1 d2. generate_data self params t w2 = (Inr (d1, d2), w')"
    if "get_new_sample self"
    using br that unfolding m by auto
  from lg ty pt pa gen show ?thesis unfolding m by simp
qed

text \<open>
  Claim C1, amended. A call to \<open>sample\<close> that returns has constructed a new
  \<open>SimpleBivariateGenerator\<close> \<open>sample0\<close> from the parent's \<open>data_names\<close>, its
  \<open>generator_parameters_config\<close>, its \<open>data_class_ref\<close> and \<open>nested_kwargs\<close>, under the name
  \<open>sub_\<close> followed by the parent's name, and returns that instance with four attributes
  set: \<open>names\<close>, \<open>metadata\<close>, \<open>filename\<close>, and \<open>data\<close>, in which only the \<open>data\<close>
  attribute of the streams named \<open>a1_name\<close> and \<open>a2_name\<close> differs from what the constructor
  made. If the parent's \<open>get_new_sample\<close> flag is set, the call has drawn the parameters
  by calling \<open>generator_parameters_fn\<close> with \<open>generator_parameters_config\<close>, has called
  \<open>generate_data\<close> with those parameters, and the returned instance holds the parameters
  in its metadata, the first dataframe as the data of the stream \<open>a1_name\<close> and the second
  as the data of the stream \<open>a2_name\<close>; should the two names coincide, that one stream
  holds the second dataframe. If the flag is not set, nothing is drawn or generated after
  the construction, the metadata holds no parameters, and the data of both streams is
  \<open>None\<close>.
\<close>

theorem sample_draws_when_new_sample:
  assumes "sample M np base_init self st0 w = (Inr (smp, self'), log, w')"
  shows "\<exists>mtype sample0 w1 data1 data2 md0 s1 t1 t2.
           md_items (metadata self) ''type'' = Some mtype \<and>
           SimpleBivariateGenerator_init M np base_init
             (data_names self) (generator_parameters_config self) None None
             (Some (''sub_'' @ name self))
             \<lparr>kw_data_class_ref = data_class_ref self, kw_top_level = False,
              kw_nested = nested_kwargs self\<rparr> w = (Inr sample0, w1) \<and>
           (if get_new_sample self
            then \<exists>params w2 df1 df2.
                   generator_parameters_fn self (generator_parameters_config self) w1 =
                     (Inr params, w2) \<and>
                   generate_data self params (case mtype of None \<Rightarrow> st0 | Some t \<Rightarrow> t) w2 =
                     (Inr (df1, df2), w') \<and>
                   data1 = Some df1 \<and> data2 = Some df2 \<and> md0 = Some params
            else w' = w1 \<and> data1 = None \<and> data2 = None \<and> md0 = None) \<and>
           map_of (data self) (a1_name self) = Some s1 \<and>
           map_of (data sample0) (a1_name self) = Some t1 \<and>
           map_of (AList.update (a1_name self) (t1\<lparr>sdata := data1\<rparr>) (data sample0))
             (a2_name self) = Some t2 \<and>
           smp = sample0
             \<lparr>names := names self,
              metadata :=
                \<lparr>md_generator = md0,
                 md_items =
                   [''type'' \<mapsto> Some (case mtype of None \<Rightarrow> st0 | Some t \<Rightarrow> t),
                    ''sample_num'' \<mapsto> Some (sample_num self),
                    ''parent_sample_type'' \<mapsto> mtype,
                    ''parent_sample_num'' \<mapsto> Some (sample_num self),
                    ''first_row'' \<mapsto> Some 0,
                    ''last_row'' \<mapsto> Some (episode_num_records s1)]\<rparr>,
              data := AList.update (a2_name self) (t2\<lparr>sdata := data2\<rparr>)
                        (AList.update (a1_name self) (t1\<lparr>sdata := data1\<rparr>) (data sample0)),
              filename := map (\<lambda>(key, stream). (key, sfilename stream)) (data self)\<rparr> \<and>
           md_generator (metadata smp) = md0 \<and>
           map_option sdata (map_of (data smp) (a1_name self)) =
             Some (if a1_name self = a2_name self then data2 else data1) \<and>
           map_option sdata (map_of (data smp) (a2_name self)) = Some data2 \<and>
           (\<forall>k. k \<noteq> a1_name self \<and> k \<noteq> a2_name self \<longrightarrow>
                map_of (data smp) k = map_of (data sample0) k)"
proof -
  from sample_Inr [OF assms] obtain mtype sample0 w1 data1 data2 md0 s1 t1 t2 where
    mt: "md_items (metadata self) ''type'' = Some mtype" and
    init: "SimpleBivariateGenerator_init M np base_init
             (data_names self) (generator_parameters_config self) None None
             (Some (''sub_'' @ name self))
             \<lparr>kw_data_class_ref = data_class_ref self, kw_top_level = False,
              kw_nested = nested_kwargs self\<rparr> w = (Inr sample0, w1)" and
    br: "if get_new_sample self
            then \<exists>params w2 d1 d2.
                   generator_parameters_fn self (generator_parameters_config self) w1 =
                     (Inr params, w2) \<and>
                   generate_data self params (case mtype of None \<Rightarrow> st0 | Some t \<Rightarrow> t) w2 =
                     (Inr (d1, d2), w') \<and>
                   data1 = Some d1 \<and> data2 = Some d2 \<and> md0 = Some params
            else w' = w1 \<and> data1 = None \<and> data2 = None \<and> md0 = None" and
    s1: "map_of (data self) (a1_name self) = Some s1" and
    t1: "map_of (data sample0) (a1_name self) = Some t1" and
    t2: "map_of (AList.update (a1_name self) (t1\<lparr>sdata := data1\<rparr>) (data sample0))
             (a2_name self) = Some t2" and
    sm: "smp = sample0
             \<lparr>names := names self,
              metadata :=
                \<lparr>md_generator = md0,
                 md_items =
                   [''type'' \<mapsto> Some (case mtype of None \<Rightarrow> st0 | Some t \<Rightarrow> t),
                    ''sample_num'' \<mapsto> Some (sample_num self),
                    ''parent_sample_type'' \<mapsto> mtype,
                    ''parent_sample_num'' \<mapsto> Some (sample_num self),
                    ''first_row'' \<mapsto> Some 0,
                    ''last_row'' \<mapsto> Some (episode_num_records s1)]\<rparr>,
              data := AList.update (a2_name self) (t2\<lparr>sdata := data2\<rparr>)
                        (AList.update (a1_name self) (t1\<lparr>sdata := data1\<rparr>) (data sample0)),
              filename := map (\<lambda>(key, stream). (key, sfilename stream)) (data self)\<rparr>"
    by (elim exE conjE) (rule that)
  have dt: "data smp = AList.update (a2_name self) (t2\<lparr>sdata := data2\<rparr>)
                        (AList.update (a1_name self) (t1\<lparr>sdata := data1\<rparr>) (data sample0))"
    by (simp add: sm)
  have md: "md_generator (metadata smp) = md0"
    by (simp add: sm)
  have a2: "map_option sdata (map_of (data smp) (a2_name self)) = Some data2"
    by (simp add: dt update_conv')
  have a1: "map_option sdata (map_of (data smp) (a1_name self)) =
              Some (if a1_name self = a2_name self then data2 else data1)"
    using t2 by (auto simp: dt update_conv')
  have ot: "\<forall>k. k \<noteq> a1_name self \<and> k \<noteq> a2_name self \<longrightarrow>
                map_of (data smp) k = map_of (data sample0) k"
    by (simp add: dt update_conv')
  show ?thesis
    by (rule exI [of _ mtype], rule exI [of _ sample0], rule exI [of _ w1],
        rule exI [of _ data1], rule exI [of _ data2], rule exI [of _ md0],
        rule exI [of _ s1], rule exI [of _ t1], rule exI [of _ t2])
       (intro conjI mt init br s1 t1 t2 sm md a1 a2 ot)
qed

lemmas ex_sample_defs = sample_def SimpleBivariateGenerator_init_def ex_base_init_def
  generate_data_def ex_defs call_bivariate_generator_fn_def bivariate_generator_fn_def
  bivariate_random_state_fn_def np_around_def np_getitem_def py_getitem_def pd_DataFrame_def
  pd_broadcast_def Let_def

lemma ex_sample:
  "\<exists>smp. sample ex_model ex_numpy ex_base_init ex_generator 0 0 =
           (Inr (smp, ex_generator\<lparr>sample_num := 1\<rparr>), [], 2) \<and>
         md_generator (metadata smp) = Some ex_params \<and>
         map fst (data smp) = [''a'', ''b''] \<and>
         map sdata (map snd (data smp)) =
           [Some (ex_frame [100, 100, 100] [0, 1, 2]),
            Some (ex_frame [200, 200, 200] [0, 1, 2])]"
  by (simp add: ex_sample_defs)

lemma ex_sample_test:
  "\<exists>smp. sample ex_model ex_numpy ex_base_init ex_generator_test 0 0 =
           (Inr (smp, ex_generator_test\<lparr>sample_num := 1\<rparr>), [Warning_overriden 0 1], 2) \<and>
         map fst (data smp) = [''a'', ''b''] \<and>
         map sdata (map snd (data smp)) =
           [Some (ex_frame [100, 100, 100] [10, 11, 12]),
            Some (ex_frame [200, 200, 200] [10, 11, 12])]"
  by (simp add: ex_sample_defs ex_generator_test_def)

lemma ex_sample_off:
  "\<exists>smp. sample ex_model ex_numpy ex_base_init ex_generator_off 0 0 =
           (Inr (smp, ex_generator_off\<lparr>sample_num := 1\<rparr>), [], 0) \<and>
         md_generator (metadata smp) = None \<and>
         map sdata (map snd (data smp)) = [None, None]"
  by (simp add: ex_sample_defs ex_generator_off_def)


lemma ex_generator_attrs:
  "a1_name ex_generator = ''a''"
  "a2_name ex_generator = ''b''"
  "get_new_sample ex_generator"
  "sample_num ex_generator = 0"
  "md_items (metadata ex_generator) ''type'' = Some None"
  "generator_parameters_config ex_generator = ()"
  by (simp_all add: ex_generator_def ex_base_def BasePairDataGenerator.defs
        SimpleBivariateGenerator.defs)

lemma ex_init_world:
  "SimpleBivariateGenerator_init ex_model ex_numpy ex_base_init dn cfg gf gpf nm kw w = (r, w') \<Longrightarrow>
   w' = w"
  by (simp add: SimpleBivariateGenerator_init_def ex_base_init_def)

lemma ex_generator_parameters_fn:
  "generator_parameters_fn ex_generator () w = (Inr ex_params, Suc w)"
  by (simp add: ex_defs bivariate_random_state_fn_def)

text \<open>
  Claim C1 as stated, refuted. On a parent whose \<open>get_new_sample\<close> flag is off, \<open>sample\<close>
  returns a sample whose streams hold no dataframe and whose metadata holds no generator
  parameters. The world is untouched, although one call of the parent's
  \<open>generator_parameters_fn\<close> would advance it: no parameters were drawn.
\<close>

theorem sample_without_new_sample_counterexample:
  "\<not> get_new_sample ex_generator_off \<and>
   snd (generator_parameters_fn ex_generator_off () 0) = 1 \<and>
   \<not> isl (fst (sample ex_model ex_numpy ex_base_init ex_generator_off 0 0)) \<and>
   snd (snd (sample ex_model ex_numpy ex_base_init ex_generator_off 0 0)) = 0 \<and>
   md_generator (metadata (fst (projr (fst
     (sample ex_model ex_numpy ex_base_init ex_generator_off 0 0))))) = None \<and>
   map sdata (map snd (data (fst (projr (fst
     (sample ex_model ex_numpy ex_base_init ex_generator_off 0 0)))))) = [None, None]"
proof -
  from ex_sample_off obtain smp where
    r: "sample ex_model ex_numpy ex_base_init ex_generator_off 0 0 =
          (Inr (smp, ex_generator_off\<lparr>sample_num := 1\<rparr>), [], 0)" and
    m: "md_generator (metadata smp) = None" and
    d: "map sdata (map snd (data smp)) = [None, None]"
    by (elim exE conjE) (rule that)
  have g: "\<not> get_new_sample ex_generator_off"
    by (simp add: ex_generator_off_def)
  have p: "snd (generator_parameters_fn ex_generator_off () 0) = 1"
    by (simp add: ex_generator_off_def ex_generator_parameters_fn)
  from g p m d show ?thesis by (simp add: r)
qed

lemma ex_init_name:
  "SimpleBivariateGenerator_init ex_model ex_numpy ex_base_init dn cfg gf gpf (Some nm) kw w =
     (Inr r, w') \<Longrightarrow> name r = nm \<and> data_names r = dn"
  by (auto simp: SimpleBivariateGenerator_init_def ex_base_init_def ex_base_def
        BasePairDataGenerator.defs SimpleBivariateGenerator.defs)

theorem sample_draws_when_new_sample_witness:
  "get_new_sample ex_generator \<and>
   (\<exists>smp. sample ex_model ex_numpy ex_base_init ex_generator 0 0 =
            (Inr (smp, ex_generator\<lparr>sample_num := 1\<rparr>), [], 2) \<and>
          generator_parameters_fn ex_generator (generator_parameters_config ex_generator) 0 =
            (Inr ex_params, 1) \<and>
          generate_data ex_generator ex_params 0 1 =
            (Inr (ex_frame [100, 100, 100] [0, 1, 2], ex_frame [200, 200, 200] [0, 1, 2]), 2) \<and>
          name smp = ''sub_G'' \<and>
          md_generator (metadata smp) = Some ex_params \<and>
          map_option sdata (map_of (data smp) ''a'') =
            Some (Some (ex_frame [100, 100, 100] [0, 1, 2])) \<and>
          map_option sdata (map_of (data smp) ''b'') =
            Some (Some (ex_frame [200, 200, 200] [0, 1, 2])))"
proof -
  from ex_sample obtain smp where
    r: "sample ex_model ex_numpy ex_base_init ex_generator 0 0 =
          (Inr (smp, ex_generator\<lparr>sample_num := 1\<rparr>), [], 2)"
    by (elim exE conjE) (rule that)
  from sample_draws_when_new_sample [OF r] obtain mtype sample0 w1 data1 data2 md0 where
    mt: "md_items (metadata ex_generator) ''type'' = Some mtype" and
    init: "SimpleBivariateGenerator_init ex_model ex_numpy ex_base_init
             (data_names ex_generator) (generator_parameters_config ex_generator) None None
             (Some (''sub_'' @ name ex_generator))
             \<lparr>kw_data_class_ref = data_class_ref ex_generator, kw_top_level = False,
              kw_nested = nested_kwargs ex_generator\<rparr> 0 = (Inr sample0, w1)" and
    br_if: "if get_new_sample ex_generator
            then \<exists>params w2 df1 df2.
                   generator_parameters_fn ex_generator (generator_parameters_config ex_generator) w1 =
                     (Inr params, w2) \<and>
                   generate_data ex_generator params (case mtype of None \<Rightarrow> 0 | Some t \<Rightarrow> t) w2 =
                     (Inr (df1, df2), 2) \<and>
                   data1 = Some df1 \<and> data2 = Some df2 \<and> md0 = Some params
            else 2 = w1 \<and> data1 = None \<and> data2 = None \<and> md0 = None" and
    nm: "name smp = name sample0" and
    md: "md_generator (metadata smp) = md0" and
    a: "map_option sdata (map_of (data smp) (a1_name ex_generator)) =
          Some (if a1_name ex_generator = a2_name ex_generator then data2 else data1)" and
    b: "map_option sdata (map_of (data smp) (a2_name ex_generator)) = Some data2"
    by (elim exE conjE) (rule that, simp_all)
  from mt have m: "mtype = None" by (simp add: ex_generator_attrs)
  from ex_init_world [OF init] have w: "w1 = 0" .
  from ex_init_name [OF init] have n0: "name sample0 = ''sub_'' @ name ex_generator" by simp
  have n: "name smp = ''sub_G''"
    unfolding nm n0 by (simp add: ex_generator_def ex_base_def BasePairDataGenerator.defs)
  from br_if ex_generator_attrs(3) obtain params w2 df1 df2 where
    p: "generator_parameters_fn ex_generator (generator_parameters_config ex_generator) w1 =
          (Inr params, w2)" and
    g: "generate_data ex_generator params (case mtype of None \<Rightarrow> 0 | Some t \<Rightarrow> t) w2 =
          (Inr (df1, df2), 2)" and
    d: "data1 = Some df1" "data2 = Some df2" "md0 = Some params"
    by (simp only: if_True) (elim exE conjE, rule that)
  from p have pe: "params = ex_params" "w2 = 1"
    unfolding w by (simp_all add: ex_generator_attrs ex_generator_parameters_fn)
  from g have de: "df1 = ex_frame [100, 100, 100] [0, 1, 2]"
    "df2 = ex_frame [200, 200, 200] [0, 1, 2]"
    unfolding pe m by (simp_all add: ex_generate_data)
  have p': "generator_parameters_fn ex_generator (generator_parameters_config ex_generator) 0 =
      (Inr ex_params, 1)"
    using p unfolding pe w .
  have g': "generate_data ex_generator ex_params 0 1 =
      (Inr (ex_frame [100, 100, 100] [0, 1, 2], ex_frame [200, 200, 200] [0, 1, 2]), 2)"
    by (simp add: ex_generate_data)
  have md': "md_generator (metadata smp) = Some ex_params"
    using md unfolding d pe .
  have a': "map_option sdata (map_of (data smp) ''a'') =
      Some (Some (ex_frame [100, 100, 100] [0, 1, 2]))"
    using a unfolding d de by (simp add: ex_generator_attrs)
  have b': "map_option sdata (map_of (data smp) ''b'') =
      Some (Some (ex_frame [200, 200, 200] [0, 1, 2]))"
    using b unfolding d de by (simp add: ex_generator_attrs)
  show ?thesis
    by (rule conjI [OF ex_generator_attrs(3)], rule exI [of _ smp]) (intro conjI r p' g' n md' a' b')
qed

theorem sample_keeps_parent_type_witness:
  "md_items (metadata ex_generator_test) ''type'' = Some (Some 1) \<and>
   (\<exists>smp. sample ex_model ex_numpy ex_base_init ex_generator_test 0 0 =
            (Inr (smp, ex_generator_test\<lparr>sample_num := 1\<rparr>), [Warning_overriden 0 1], 2) \<and>
          md_items (metadata smp) ''type'' = Some (Some 1) \<and>
          md_items (metadata smp) ''parent_sample_type'' = Some (Some 1) \<and>
          map sdata (map snd (data smp)) =
            [Some (ex_frame [100, 100, 100] [10, 11, 12]),
             Some (ex_frame [200, 200, 200] [10, 11, 12])])"
proof -
  have t: "md_items (metadata ex_generator_test) ''type'' = Some (Some 1)"
    by (simp add: ex_generator_test_def)
  from ex_sample_test obtain smp where
    r: "sample ex_model ex_numpy ex_base_init ex_generator_test 0 0 =
          (Inr (smp, ex_generator_test\<lparr>sample_num := 1\<rparr>), [Warning_overriden 0 1], 2)" and
    d: "map sdata (map snd (data smp)) =
            [Some (ex_frame [100, 100, 100] [10, 11, 12]),
             Some (ex_frame [200, 200, 200] [10, 11, 12])]"
    by (elim exE conjE) (rule that)
  from sample_keeps_parent_type [OF r t]
  have ty: "md_items (metadata smp) ''type'' = Some (Some 1)"
    and pt: "md_items (metadata smp) ''parent_sample_type'' = Some (Some 1)"
    by simp_all
  show ?thesis
    by (rule conjI [OF t], rule exI [of _ smp]) (intro conjI r ty pt d)
qed

theorem sample_increments_sample_num_witness:
  "sample_num ex_generator = 0 \<and>
   (\<exists>smp. sample ex_model ex_numpy ex_base_init ex_generator 0 0 =
            (Inr (smp, ex_generator\<lparr>sample_num := 1\<rparr>), [], 2) \<and>
          md_items (metadata smp) ''sample_num'' = Some (Some 0) \<and>
          md_items (metadata smp) ''parent_sample_num'' = Some (Some 0) \<and>
          md_items (metadata smp) ''first_row'' = Some (Some 0) \<and>
          md_items (metadata smp) ''last_row'' = Some (Some 3))"
proof -
  from ex_sample obtain smp where
    r: "sample ex_model ex_numpy ex_base_init ex_generator 0 0 =
          (Inr (smp, ex_generator\<lparr>sample_num := 1\<rparr>), [], 2)"
    by (elim exE conjE) (rule that)
  from sample_increments_sample_num [OF r] ex_generator_stream
  have a: "md_items (metadata smp) ''sample_num'' = Some (Some 0)"
    and b: "md_items (metadata smp) ''parent_sample_num'' = Some (Some 0)"
    and c: "md_items (metadata smp) ''first_row'' = Some (Some 0)"
    and d: "md_items (metadata smp) ''last_row'' = Some (Some 3)"
    by (auto simp: ex_generator_attrs ex_stream_def)
  show ?thesis
    by (rule conjI [OF ex_generator_attrs(4)], rule exI [of _ smp]) (intro conjI r a b c d)
qed

end
